theory Spec2Isabelle
  imports Complex_Main
begin

section \<open>Python strings\<close>

text \<open>
  A Python \<open>str\<close> is a sequence of Unicode code points, and \<open>len\<close> counts code
  points. A string is therefore modelled as the list of its code points, each a natural
  number; \<open>lit\<close> turns a literal of the source into that form.
\<close>

type_synonym pystr = "nat list"

definition lit :: "string \<Rightarrow> pystr" where
  "lit s = map of_char s"

definition is_ascii_lower :: "nat \<Rightarrow> bool" where
  "is_ascii_lower c = (97 \<le> c \<and> c \<le> 122)"

definition is_ascii_upper :: "nat \<Rightarrow> bool" where
  "is_ascii_upper c = (65 \<le> c \<and> c \<le> 90)"

definition is_ascii_digit :: "nat \<Rightarrow> bool" where
  "is_ascii_digit c = (48 \<le> c \<and> c \<le> 57)"

text \<open>The character class \<open>[a-zA-Z0-9]\<close> of the second regular expression.\<close>

definition is_ascii_alnum :: "nat \<Rightarrow> bool" where
  "is_ascii_alnum c = (is_ascii_lower c \<or> is_ascii_upper c \<or> is_ascii_digit c)"

text \<open>
  The character class \<open>[a-zA-Z0-9_\-\.]\<close> of the first regular expression
  (95 is the underscore, 45 the dash, 46 the period).
\<close>

definition allowed_char :: "nat \<Rightarrow> bool" where
  "allowed_char c = (is_ascii_alnum c \<or> c = 95 \<or> c = 45 \<or> c = 46)"

text \<open>
  \<open>str.isdigit()\<close>: false on the empty string, true when every character is a digit.
  The source calls it on a string that holds only characters of \<open>[a-zA-Z0-9_\-\.]\<close>,
  where Python's Unicode digits are the ten ASCII digits.
\<close>

definition isdigit :: "pystr \<Rightarrow> bool" where
  "isdigit s = (s \<noteq> [] \<and> list_all is_ascii_digit s)"

section \<open>utils.py\<close>

subsection \<open>sanitize\_for\_openstack\<close>

text \<open>
  \<open>name.replace(" ", "_")\<close>, then \<open>re.sub\<close> with \<open>[^a-zA-Z0-9_\-\.]\<close> (every match
  is deleted), then \<open>re.sub\<close> with \<open>^[^a-zA-Z0-9]+\<close> (the longest run of
  non-alphanumeric characters at the start is deleted), then the two repairs, in the
  order of the source.
\<close>

definition sanitize_for_openstack :: "pystr \<Rightarrow> pystr" where
  "sanitize_for_openstack name =
     (let sanitized = map (\<lambda>c. if c = 32 then 95 else c) name;
          sanitized = filter allowed_char sanitized;
          sanitized = dropWhile (\<lambda>c. \<not> is_ascii_alnum c) sanitized;
          sanitized = (if isdigit sanitized then lit ''project_'' @ sanitized else sanitized);
          sanitized = (if sanitized = [] then lit ''sanitizer_default_name'' else sanitized)
      in sanitized)"

subsection \<open>The sanitization rule as the specification words it\<close>

text \<open>
  The rule of the specification, step by step and by explicit recursion: replace spaces
  with underscores; strip every character outside \<open>[A-Za-z0-9_.-]\<close>; strip leading
  non-alphanumeric characters; if the result is all digits, prefix it with
  \<open>project_\<close>; if the result is empty, substitute a fixed fallback literal (which the
  specification does not name, so it is a parameter here).
\<close>

definition spec_alphanumeric :: "nat set" where
  "spec_alphanumeric =
     set (lit ''ABCDEFGHIJKLMNOPQRSTUVWXYZabcdefghijklmnopqrstuvwxyz0123456789'')"

definition spec_digits :: "nat set" where
  "spec_digits = set (lit ''0123456789'')"

fun spec_replace_spaces :: "pystr \<Rightarrow> pystr" where
  "spec_replace_spaces [] = []"
| "spec_replace_spaces (c # cs) =
     (if c = 32 then 95 # spec_replace_spaces cs else c # spec_replace_spaces cs)"

fun spec_strip_outside :: "pystr \<Rightarrow> pystr" where
  "spec_strip_outside [] = []"
| "spec_strip_outside (c # cs) =
     (if c \<in> spec_alphanumeric \<union> set (lit ''_.-'') then c # spec_strip_outside cs
      else spec_strip_outside cs)"

fun spec_strip_leading :: "pystr \<Rightarrow> pystr" where
  "spec_strip_leading [] = []"
| "spec_strip_leading (c # cs) =
     (if c \<in> spec_alphanumeric then c # cs else spec_strip_leading cs)"

definition spec_all_digits :: "pystr \<Rightarrow> bool" where
  "spec_all_digits s = (s \<noteq> [] \<and> set s \<subseteq> spec_digits)"

definition spec_sanitize :: "pystr \<Rightarrow> pystr \<Rightarrow> pystr" where
  "spec_sanitize fallback s =
     (let r = spec_strip_leading (spec_strip_outside (spec_replace_spaces s));
          r = (if spec_all_digits r then lit ''project_'' @ r else r)
      in if r = [] then fallback else r)"

text \<open>
  The string after the three rewriting steps of \<open>sanitize_for_openstack\<close>, before the
  two repairs.
\<close>

definition core :: "pystr \<Rightarrow> pystr" where
  "core s = dropWhile (\<lambda>c. \<not> is_ascii_alnum c)
     (filter allowed_char (map (\<lambda>c. if c = 32 then 95 else c) s))"

text \<open>
  \<open>str.strip()\<close> removes leading and trailing whitespace; the whitespace code points
  are those of CPython's \<open>str.isspace\<close>.
\<close>

definition is_space :: "nat \<Rightarrow> bool" where
  "is_space c = (c \<in> set [9, 10, 11, 12, 13, 28, 29, 30, 31, 32, 133, 160, 5760,
     8192, 8193, 8194, 8195, 8196, 8197, 8198, 8199, 8200, 8201, 8202,
     8232, 8233, 8239, 8287, 12288])"

definition strip :: "pystr \<Rightarrow> pystr" where
  "strip s = rev (dropWhile is_space (rev (dropWhile is_space s)))"

section \<open>Exceptions, state and effects\<close>

text \<open>
  The exception classes the code raises, catches or names. Every one is a subclass of
  \<open>Exception\<close>; \<open>Conflict\<close> is a subclass of the identity client's
  \<open>ClientException\<close>. \<open>KeystoneClientError\<close> is the repository's own class,
  \<open>BackendError\<close> the agent framework's.
\<close>

datatype exn_class = Exception | ValueError | RuntimeError | AttributeError
  | UnboundLocalError | KeystoneClientError | BackendError | ClientException | Conflict

definition issubclass :: "exn_class \<Rightarrow> exn_class \<Rightarrow> bool" where
  "issubclass c d = (c = d \<or> d = Exception \<or> (c = Conflict \<and> d = ClientException))"

text \<open>
  An exception object: its class, the text \<open>str(e)\<close> gives, and the attributes
  \<open>http_status\<close> (as \<open>str\<close> renders it) and \<open>details\<close> that
  \<open>format_openstack_error\<close> probes with \<open>hasattr\<close> (\<open>None\<close>: no such
  attribute). The chain \<open>__cause__\<close> set by \<open>raise ... from e\<close> is not
  modelled: no code reads it.
\<close>

datatype exn = Exn (cls: exn_class) (message: pystr) (http_status: "pystr option")
  (details: "pystr option")

definition plain :: "exn_class \<Rightarrow> pystr \<Rightarrow> exn" where
  "plain c m = Exn c m None None"

definition isinstance :: "exn \<Rightarrow> exn_class \<Rightarrow> bool" where
  "isinstance e c = issubclass (cls e) c"

text \<open>The entities of the identity service, as the client library returns them.\<close>

record domain =
  dom_id :: nat
  dom_name :: pystr

record project =
  proj_id :: nat
  proj_name :: pystr
  proj_domain_id :: nat
  proj_description :: pystr
  proj_enabled :: bool

record user =
  usr_id :: nat
  usr_name :: pystr
  usr_email :: "pystr option"
  usr_domain_id :: nat
  usr_enabled :: bool

record role =
  role_id :: nat
  role_name :: pystr

record assignment =
  asg_role_id :: nat
  asg_user_id :: nat
  asg_project_id :: nat

text \<open>
  The calls of the identity client library (python-keystoneclient, outside the
  repository) that the code issues, with their arguments. A run records them in order:
  they are what the identity service sees of an operation.
\<close>

datatype call =
    DomainsList pystr
  | DomainsCreate pystr pystr bool
  | ProjectsList pystr "domain option"
  | ProjectsCreate pystr "domain option" pystr bool
  | ProjectsDelete project
  | UsersList pystr "domain option"
  | UsersCreate pystr "pystr option" "domain option" bool
  | UsersUpdate user pystr
  | RolesList pystr
  | RolesCreate pystr
  | RolesGrant "role option" "user option" "project option"
  | RolesRevoke nat user project
  | RoleAssignmentsList user project

text \<open>
  The state a run threads: the identity service (of any type \<open>'w\<close>), the calls
  issued so far and the delays slept so far, oldest first.
\<close>

record 'w state =
  service :: 'w
  calls :: "call list"
  slept :: "real list"

text \<open>
  A Python computation: from a state to a result and the state it leaves; \<open>Inl e\<close>
  is the exception \<open>e\<close> propagating, \<open>Inr v\<close> the value returned. The effects made
  before an exception stay.
\<close>

type_synonym ('w, 'a) py = "'w state \<Rightarrow> (exn + 'a) \<times> 'w state"

definition py_return :: "'a \<Rightarrow> ('w, 'a) py" where
  "py_return v = (\<lambda>s. (Inr v, s))"

definition py_raise :: "exn \<Rightarrow> ('w, 'a) py" where
  "py_raise e = (\<lambda>s. (Inl e, s))"

definition py_bind :: "('w, 'a) py \<Rightarrow> ('a \<Rightarrow> ('w, 'b) py) \<Rightarrow> ('w, 'b) py" where
  "py_bind m f = (\<lambda>s. case m s of (Inl e, s') \<Rightarrow> (Inl e, s') | (Inr v, s') \<Rightarrow> f v s')"

text \<open>\<open>try: m  except Exception as e: h e\<close>; a handler for one class tests it with \<open>isinstance\<close>.\<close>

definition py_try :: "('w, 'a) py \<Rightarrow> (exn \<Rightarrow> ('w, 'a) py) \<Rightarrow> ('w, 'a) py" where
  "py_try m h = (\<lambda>s. case m s of (Inl e, s') \<Rightarrow> h e s' | (Inr v, s') \<Rightarrow> (Inr v, s'))"

text \<open>
  Reading an attribute of a value that may be \<open>None\<close>, as the f-strings of the log
  lines do: \<open>AttributeError\<close> on \<open>None\<close>.
\<close>

definition getattr_of :: "'a option \<Rightarrow> string \<Rightarrow> ('w, 'a) py" where
  "getattr_of x attr =
     (case x of
        None \<Rightarrow> py_raise (plain AttributeError
          ([39] @ lit ''NoneType'' @ [39] @ lit '' object has no attribute ''
             @ [39] @ lit attr @ [39]))
      | Some v \<Rightarrow> py_return v)"

text \<open>
  \<open>time.sleep\<close>: \<open>ValueError\<close> on a negative argument, otherwise the delay is
  slept (recorded).
\<close>

definition time_sleep :: "real \<Rightarrow> ('w, unit) py" where
  "time_sleep d =
     (\<lambda>s. if d < 0 then (Inl (plain ValueError (lit ''sleep length must be non-negative'')), s)
          else (Inr (), s\<lparr>slept := slept s @ [d]\<rparr>))"

section \<open>utils.py: retry and validation\<close>

subsection \<open>retry\_on\_exception\<close>

record retry_config =
  max_attempts :: int
  base_delay :: real
  max_delay :: real
  exponential_base :: real
  exceptions :: "exn_class list"

text \<open>\<open>except exceptions as e\<close>: the exception is an instance of a class of the tuple.\<close>

definition is_caught :: "retry_config \<Rightarrow> exn \<Rightarrow> bool" where
  "is_caught cfg e = list_ex (isinstance e) (exceptions cfg)"

text \<open>
  The body of \<open>wrapper\<close> from the iteration \<open>attempt\<close> of
  \<open>for attempt in range(1, max_attempts + 1)\<close> on, with the current value of
  \<open>last_exception\<close>. Past the range the code after the loop runs. The delay is
  \<open>min(base_delay * (exponential_base ** (attempt - 1)), max_delay)\<close>.
\<close>

function retry_loop ::
  "retry_config \<Rightarrow> ('w, 'a) py \<Rightarrow> int \<Rightarrow> exn option \<Rightarrow> ('w, 'a) py" where
  "retry_loop cfg func attempt last_exception s =
     (if max_attempts cfg < attempt then
        (case last_exception of
           Some e \<Rightarrow> (Inl e, s)
         | None \<Rightarrow> (Inl (plain RuntimeError (lit ''Unexpected retry logic error'')), s))
      else
        (case func s of
           (Inr v, s') \<Rightarrow> (Inr v, s')
         | (Inl e, s') \<Rightarrow>
             if \<not> is_caught cfg e then (Inl e, s')
             else if attempt = max_attempts cfg then (Inl e, s')
             else
               (case time_sleep
                       (min (base_delay cfg * exponential_base cfg ^ nat (attempt - 1))
                            (max_delay cfg)) s' of
                  (Inl e', s'') \<Rightarrow> (Inl e', s'')
                | (Inr u, s'') \<Rightarrow> retry_loop cfg func (attempt + 1) (Some e) s'')))"
  by pat_completeness auto
termination
  by (relation "measure (\<lambda>(cfg, func, attempt, last_exception, s).
        nat (max_attempts cfg + 1 - attempt))") auto

definition retry_on_exception :: "retry_config \<Rightarrow> ('w, 'a) py \<Rightarrow> ('w, 'a) py" where
  "retry_on_exception cfg func = retry_loop cfg func 1 None"

text \<open>The decorator's defaults, which the signature of \<open>retry_on_exception\<close> gives.\<close>

definition default_retry :: retry_config where
  "default_retry = \<lparr>max_attempts = 3, base_delay = 1, max_delay = 60,
     exponential_base = 2, exceptions = [Exception]\<rparr>"

subsection \<open>validate\_backend\_id\<close>

text \<open>
  The argument is a \<open>str\<close> by its type, so the \<open>isinstance\<close> test of the source
  never fires and has no branch here.
\<close>

definition validate_backend_id :: "pystr \<Rightarrow> pystr \<Rightarrow> exn + bool" where
  "validate_backend_id backend_id resource_type =
     (if backend_id = [] then
        Inl (plain ValueError (lit ''Backend ID validation ressource: '' @ resource_type
               @ lit '' backend_id cannot be empty''))
      else if length backend_id > 255 then
        Inl (plain ValueError (resource_type
               @ lit '' backend_id is too long (max 255 characters)''))
      else Inr True)"

subsection \<open>format\_openstack\_error\<close>

definition format_openstack_error :: "exn \<Rightarrow> pystr" where
  "format_openstack_error exception =
     (let error_msg = message exception;
          error_msg = (case http_status exception of
                         Some status_code \<Rightarrow> lit ''[HTTP '' @ status_code @ lit ''] '' @ error_msg
                       | None \<Rightarrow> error_msg);
          error_msg = (case details exception of
                         Some d \<Rightarrow>
                           if d \<noteq> [] then
                             [10] @ lit ''ERROR MESSAGE'' @ error_msg @ [10] @ lit ''DETAILS: '' @ d
                           else error_msg
                       | None \<Rightarrow> error_msg)
      in error_msg)"

subsection \<open>Operations for exercising the retry wrapper\<close>


definition fresh :: "'w \<Rightarrow> 'w state" where
  "fresh w = \<lparr>service = w, calls = [], slept = []\<rparr>"



section \<open>The identity client library\<close>

text \<open>
  python-keystoneclient is outside the repository. Its managers are taken as an
  arbitrary environment: each call maps the state of the identity service to a result
  (a value, or the exception it raises) and a new state. Nothing is assumed of them. An
  argument that the code may pass as \<open>None\<close> is an option.
\<close>

record 'w sdk =
  domains_list :: "pystr \<Rightarrow> 'w \<Rightarrow> (exn + domain list) \<times> 'w"
  domains_create :: "pystr \<Rightarrow> pystr \<Rightarrow> bool \<Rightarrow> 'w \<Rightarrow> (exn + domain) \<times> 'w"
  projects_list :: "pystr \<Rightarrow> domain option \<Rightarrow> 'w \<Rightarrow> (exn + project list) \<times> 'w"
  projects_create ::
    "pystr \<Rightarrow> domain option \<Rightarrow> pystr \<Rightarrow> bool \<Rightarrow> 'w \<Rightarrow> (exn + project) \<times> 'w"
  projects_delete :: "project \<Rightarrow> 'w \<Rightarrow> (exn + unit) \<times> 'w"
  users_list :: "pystr \<Rightarrow> domain option \<Rightarrow> 'w \<Rightarrow> (exn + user list) \<times> 'w"
  users_create ::
    "pystr \<Rightarrow> pystr option \<Rightarrow> domain option \<Rightarrow> bool \<Rightarrow> 'w \<Rightarrow> (exn + user) \<times> 'w"
  users_update :: "user \<Rightarrow> pystr \<Rightarrow> 'w \<Rightarrow> (exn + unit) \<times> 'w"
  roles_list :: "pystr \<Rightarrow> 'w \<Rightarrow> (exn + role list) \<times> 'w"
  roles_create :: "pystr \<Rightarrow> 'w \<Rightarrow> (exn + role) \<times> 'w"
  roles_grant ::
    "role option \<Rightarrow> user option \<Rightarrow> project option \<Rightarrow> 'w \<Rightarrow> (exn + unit) \<times> 'w"
  roles_revoke :: "nat \<Rightarrow> user \<Rightarrow> project \<Rightarrow> 'w \<Rightarrow> (exn + unit) \<times> 'w"
  role_assignments_list :: "user \<Rightarrow> project \<Rightarrow> 'w \<Rightarrow> (exn + assignment list) \<times> 'w"

text \<open>Issuing a call: it is recorded, and runs on the service.\<close>

definition sdk_call :: "call \<Rightarrow> ('w \<Rightarrow> (exn + 'a) \<times> 'w) \<Rightarrow> ('w, 'a) py" where
  "sdk_call c op =
     (\<lambda>s. case op (service s) of (r, w') \<Rightarrow> (r, s\<lparr>service := w', calls := calls s @ [c]\<rparr>))"

text \<open>\<open>xs[0] if xs else None\<close>.\<close>

definition first_or_none :: "'a list \<Rightarrow> 'a option" where
  "first_or_none xs = (case xs of [] \<Rightarrow> None | x # _ \<Rightarrow> Some x)"

section \<open>config.py\<close>

text \<open>The fields of \<open>OpenStackConfig\<close> that the operations below read.\<close>

record OpenStackConfig =
  domain_name :: pystr
  default_role :: pystr
  create_users_if_not_exist :: bool
  sync_user_emails :: bool
  user_enabled_by_default :: bool

section \<open>keystone\_client.py\<close>

text \<open>
  The methods of \<open>KeystoneClient\<close>. Log lines have no effect and are left out, except
  where building the line reads an attribute of a value that may be \<open>None\<close>.
\<close>

definition KeystoneClient_get_domain :: "'w sdk \<Rightarrow> pystr \<Rightarrow> ('w, domain option) py" where
  "KeystoneClient_get_domain k dname =
     py_try
       (py_bind (sdk_call (DomainsList dname) (domains_list k dname))
          (\<lambda>domains. py_return (first_or_none domains)))
       (\<lambda>e. py_return None)"

definition KeystoneClient_ensure_domain :: "'w sdk \<Rightarrow> pystr \<Rightarrow> ('w, domain option) py" where
  "KeystoneClient_ensure_domain k dname =
     py_bind (KeystoneClient_get_domain k dname)
       (\<lambda>domain. case domain of
          Some d \<Rightarrow> py_return (Some d)
        | None \<Rightarrow>
            py_try
              (py_bind
                 (sdk_call
                    (DomainsCreate dname
                       (lit ''Domain '' @ dname @ lit '' created by ensure_domain'') True)
                    (domains_create k dname
                       (lit ''Domain '' @ dname @ lit '' created by ensure_domain'') True))
                 (\<lambda>d. py_return (Some d)))
              (\<lambda>e. if isinstance e Conflict then KeystoneClient_get_domain k dname
                    else py_raise (plain KeystoneClientError
                           (lit ''Failed to create domain: '' @ message e))))"

definition KeystoneClient_get_project ::
  "'w sdk \<Rightarrow> OpenStackConfig \<Rightarrow> pystr \<Rightarrow> domain option \<Rightarrow> ('w, project option) py" where
  "KeystoneClient_get_project k cfg project_name domain =
     py_try
       (py_bind
          (case domain of
             None \<Rightarrow> KeystoneClient_get_domain k (domain_name cfg)
           | Some d \<Rightarrow> py_return (Some d))
          (\<lambda>domain.
             py_bind
               (sdk_call (ProjectsList project_name domain) (projects_list k project_name domain))
               (\<lambda>projects. py_return (first_or_none projects))))
       (\<lambda>e. py_return None)"

text \<open>
  The two \<open>except\<close> clauses of \<open>create_project\<close>; \<open>domain\<close> is the value the local
  variable holds when the exception arrives.
\<close>

definition create_project_except ::
  "'w sdk \<Rightarrow> OpenStackConfig \<Rightarrow> pystr \<Rightarrow> domain option \<Rightarrow> exn \<Rightarrow> ('w, project option) py" where
  "create_project_except k cfg project_name domain e =
     (if isinstance e Conflict then KeystoneClient_get_project k cfg project_name domain
      else py_raise (plain KeystoneClientError
             (lit ''Failed to create project in create_project func '' @ project_name
                @ lit '': '' @ format_openstack_error e)))"

text \<open>\<open>create_project\<close> without its decorator. On a conflict it returns what the lookup returns, which may be \<open>None\<close>.\<close>

definition create_project_undecorated ::
  "'w sdk \<Rightarrow> OpenStackConfig \<Rightarrow> pystr \<Rightarrow> domain option \<Rightarrow> pystr \<Rightarrow> ('w, project option) py"
  where
  "create_project_undecorated k cfg project_name domain description =
     (\<lambda>s. case (case domain of
                  None \<Rightarrow> KeystoneClient_ensure_domain k (domain_name cfg)
                | Some d \<Rightarrow> py_return (Some d)) s of
            (Inl e, s') \<Rightarrow> create_project_except k cfg project_name domain e s'
          | (Inr dmn, s') \<Rightarrow>
              py_try
                (py_bind
                   (sdk_call
                      (ProjectsCreate project_name dmn
                         (if description \<noteq> [] then description
                          else lit ''Project '' @ project_name) True)
                      (projects_create k project_name dmn
                         (if description \<noteq> [] then description
                          else lit ''Project '' @ project_name) True))
                   (\<lambda>project. py_return (Some project)))
                (create_project_except k cfg project_name dmn) s')"

definition KeystoneClient_create_project ::
  "'w sdk \<Rightarrow> OpenStackConfig \<Rightarrow> pystr \<Rightarrow> domain option \<Rightarrow> pystr \<Rightarrow> ('w, project option) py"
  where
  "KeystoneClient_create_project k cfg project_name domain description =
     retry_on_exception default_retry
       (create_project_undecorated k cfg project_name domain description)"

definition KeystoneClient_delete_project ::
  "'w sdk \<Rightarrow> OpenStackConfig \<Rightarrow> pystr \<Rightarrow> domain option \<Rightarrow> ('w, bool) py" where
  "KeystoneClient_delete_project k cfg project_name domain =
     py_try
       (py_bind (KeystoneClient_get_project k cfg project_name domain)
          (\<lambda>project. case project of
             None \<Rightarrow> py_return False
           | Some p \<Rightarrow>
               py_bind (sdk_call (ProjectsDelete p) (projects_delete k p))
                 (\<lambda>u. py_return True)))
       (\<lambda>e. py_return False)"

definition KeystoneClient_get_user ::
  "'w sdk \<Rightarrow> OpenStackConfig \<Rightarrow> pystr \<Rightarrow> domain option \<Rightarrow> ('w, user option) py" where
  "KeystoneClient_get_user k cfg username domain =
     py_try
       (py_bind
          (case domain of
             None \<Rightarrow> KeystoneClient_get_domain k (domain_name cfg)
           | Some d \<Rightarrow> py_return (Some d))
          (\<lambda>domain.
             py_bind (sdk_call (UsersList username domain) (users_list k username domain))
               (\<lambda>users. py_return (first_or_none users))))
       (\<lambda>e. py_return None)"

definition ensure_user_except ::
  "'w sdk \<Rightarrow> OpenStackConfig \<Rightarrow> pystr \<Rightarrow> domain option \<Rightarrow> exn \<Rightarrow> ('w, user option) py" where
  "ensure_user_except k cfg username domain e =
     (if isinstance e Conflict then KeystoneClient_get_user k cfg username domain
      else py_raise (plain KeystoneClientError
             (lit ''Failed to create user '' @ username @ lit '': ''
                @ format_openstack_error e)))"

text \<open>
  \<open>ensure_user\<close> without its decorator. The email of a user found is updated when an
  email is given, the configuration asks for it, the object has the attribute and the
  two differ; a failure of the update is swallowed.
\<close>

definition ensure_user_undecorated ::
  "'w sdk \<Rightarrow> OpenStackConfig \<Rightarrow> pystr \<Rightarrow> pystr option \<Rightarrow> domain option \<Rightarrow> bool option
     \<Rightarrow> ('w, user option) py" where
  "ensure_user_undecorated k cfg username email domain enabled =
     py_bind (KeystoneClient_get_user k cfg username domain)
       (\<lambda>user. case user of
          Some u \<Rightarrow>
            py_bind
              (case email of
                 None \<Rightarrow> py_return ()
               | Some em \<Rightarrow>
                   if em \<noteq> [] \<and> sync_user_emails cfg \<and> usr_email u \<noteq> None
                      \<and> usr_email u \<noteq> Some em
                   then py_try (sdk_call (UsersUpdate u em) (users_update k u em))
                          (\<lambda>e. py_return ())
                   else py_return ())
              (\<lambda>x. py_return (Some u))
        | None \<Rightarrow>
            if \<not> create_users_if_not_exist cfg then
              py_raise (plain KeystoneClientError
                (lit ''User '' @ username @ lit '' not found and auto-creation disabled''))
            else
              (\<lambda>s. case (case domain of
                           None \<Rightarrow> KeystoneClient_ensure_domain k (domain_name cfg)
                         | Some d \<Rightarrow> py_return (Some d)) s of
                     (Inl e, s') \<Rightarrow> ensure_user_except k cfg username domain e s'
                   | (Inr dmn, s') \<Rightarrow>
                       py_try
                         (py_bind
                            (sdk_call
                               (UsersCreate username email dmn
                                  (case enabled of None \<Rightarrow> user_enabled_by_default cfg
                                   | Some b \<Rightarrow> b))
                               (users_create k username email dmn
                                  (case enabled of None \<Rightarrow> user_enabled_by_default cfg
                                   | Some b \<Rightarrow> b)))
                            (\<lambda>created. py_return (Some created)))
                         (ensure_user_except k cfg username dmn) s'))"

definition KeystoneClient_ensure_user ::
  "'w sdk \<Rightarrow> OpenStackConfig \<Rightarrow> pystr \<Rightarrow> pystr option \<Rightarrow> domain option \<Rightarrow> bool option
     \<Rightarrow> ('w, user option) py" where
  "KeystoneClient_ensure_user k cfg username email domain enabled =
     retry_on_exception default_retry
       (ensure_user_undecorated k cfg username email domain enabled)"

definition KeystoneClient_get_role :: "'w sdk \<Rightarrow> pystr \<Rightarrow> ('w, role option) py" where
  "KeystoneClient_get_role k rname =
     py_try
       (py_bind (sdk_call (RolesList rname) (roles_list k rname))
          (\<lambda>roles. py_return (first_or_none roles)))
       (\<lambda>e. py_return None)"

definition KeystoneClient_ensure_role :: "'w sdk \<Rightarrow> pystr \<Rightarrow> ('w, role option) py" where
  "KeystoneClient_ensure_role k rname =
     py_bind (KeystoneClient_get_role k rname)
       (\<lambda>role. case role of
          Some r \<Rightarrow> py_return (Some r)
        | None \<Rightarrow>
            py_try
              (py_bind (sdk_call (RolesCreate rname) (roles_create k rname))
                 (\<lambda>r. py_return (Some r)))
              (\<lambda>e. if isinstance e Conflict then KeystoneClient_get_role k rname
                    else py_raise (plain KeystoneClientError
                           (lit ''Failed to create role: '' @ message e))))"

text \<open>
  \<open>assign_role\<close> without its decorator. The log line after the grant reads
  \<open>user.name\<close> and \<open>project.name\<close> inside the \<open>try\<close>; the log line of the
  \<open>Conflict\<close> clause reads \<open>user.name\<close> inside the handler, where nothing catches it.
\<close>

definition assign_role_undecorated ::
  "'w sdk \<Rightarrow> user option \<Rightarrow> project option \<Rightarrow> pystr \<Rightarrow> ('w, bool) py" where
  "assign_role_undecorated k user project rname =
     py_try
       (py_bind (KeystoneClient_ensure_role k rname)
          (\<lambda>role.
             py_bind (sdk_call (RolesGrant role user project) (roles_grant k role user project))
               (\<lambda>u. py_bind (getattr_of user ''name'')
                  (\<lambda>un. py_bind (getattr_of project ''name'')
                     (\<lambda>pn. py_return True)))))
       (\<lambda>e. if isinstance e Conflict
             then py_bind (getattr_of user ''name'') (\<lambda>un. py_return True)
             else py_return False)"

definition KeystoneClient_assign_role ::
  "'w sdk \<Rightarrow> user option \<Rightarrow> project option \<Rightarrow> pystr \<Rightarrow> ('w, bool) py" where
  "KeystoneClient_assign_role k user project rname =
     retry_on_exception default_retry (assign_role_undecorated k user project rname)"

text \<open>
  The loop of \<open>revoke_all_project_roles\<close> with the current value of \<open>success\<close>. An
  assignment is a record that holds its role's identifier, so reading
  \<open>assignment.role["id"]\<close> cannot fail.
\<close>

fun revoke_each ::
  "'w sdk \<Rightarrow> user \<Rightarrow> project \<Rightarrow> assignment list \<Rightarrow> bool \<Rightarrow> ('w, bool) py" where
  "revoke_each k u p [] success = py_return success"
| "revoke_each k u p (a # assignments) success =
     py_bind
       (py_try
          (py_bind
             (sdk_call (RolesRevoke (asg_role_id a) u p) (roles_revoke k (asg_role_id a) u p))
             (\<lambda>x. py_return success))
          (\<lambda>e. py_return False))
       (\<lambda>success'. revoke_each k u p assignments success')"

definition KeystoneClient_revoke_all_project_roles ::
  "'w sdk \<Rightarrow> user \<Rightarrow> project \<Rightarrow> ('w, bool) py" where
  "KeystoneClient_revoke_all_project_roles k u p =
     py_try
       (py_bind (sdk_call (RoleAssignmentsList u p) (role_assignments_list k u p))
          (\<lambda>assignments.
             if assignments = [] then py_return True
             else revoke_each k u p assignments True))
       (\<lambda>e. py_return False)"

section \<open>openstack\_client.py\<close>

text \<open>
  \<open>ClientResource\<close> is a plain data class of the agent framework; building one does
  not fail.
\<close>

record ClientResource =
  cr_name :: pystr
  cr_description :: pystr
  cr_organization :: pystr

definition OpenStackClient_get_resource ::
  "'w sdk \<Rightarrow> OpenStackConfig \<Rightarrow> pystr \<Rightarrow> ('w, ClientResource option) py" where
  "OpenStackClient_get_resource k cfg resource_id =
     py_try
       (py_bind (KeystoneClient_get_project k cfg resource_id None)
          (\<lambda>project. case project of
             None \<Rightarrow> py_return None
           | Some p \<Rightarrow>
               py_bind (KeystoneClient_get_domain k (domain_name cfg))
                 (\<lambda>domain. py_return (Some
                    \<lparr>cr_name = proj_name p, cr_description = proj_description p,
                     cr_organization = (case domain of Some d \<Rightarrow> dom_name d | None \<Rightarrow> [])\<rparr>))))
       (\<lambda>e. py_return None)"

definition OpenStackClient_get_project ::
  "'w sdk \<Rightarrow> OpenStackConfig \<Rightarrow> pystr \<Rightarrow> ('w, project option) py" where
  "OpenStackClient_get_project k cfg project_name =
     py_try (KeystoneClient_get_project k cfg project_name None) (\<lambda>e. py_return None)"

text \<open>The log line after the creation reads \<open>project.id\<close> inside the \<open>try\<close>.\<close>

definition OpenStackClient_create_project ::
  "'w sdk \<Rightarrow> OpenStackConfig \<Rightarrow> pystr \<Rightarrow> pystr \<Rightarrow> ('w, project) py" where
  "OpenStackClient_create_project k cfg project_name description =
     py_try
       (py_bind (KeystoneClient_create_project k cfg project_name None description)
          (\<lambda>project. getattr_of project ''id''))
       (\<lambda>e. py_raise (plain KeystoneClientError
              (lit ''Failed to create project '' @ [39] @ project_name @ [39] @ lit '': ''
                 @ message e)))"

definition OpenStackClient_delete_resource ::
  "'w sdk \<Rightarrow> OpenStackConfig \<Rightarrow> pystr \<Rightarrow> ('w, pystr) py" where
  "OpenStackClient_delete_resource k cfg name =
     py_try
       (py_bind (KeystoneClient_delete_project k cfg name None)
          (\<lambda>success.
             if success then
               py_return (lit ''Successfully deleted project '' @ [39] @ name @ [39])
             else py_return (lit ''Project '' @ [39] @ name @ [39] @ lit '' not found'')))
       (\<lambda>e. py_raise (plain KeystoneClientError
              (lit ''Failed to delete resource '' @ [39] @ name @ [39] @ lit '': ''
                 @ message e)))"

definition OpenStackClient_create_association ::
  "'w sdk \<Rightarrow> OpenStackConfig \<Rightarrow> pystr \<Rightarrow> pystr \<Rightarrow> ('w, pystr) py" where
  "OpenStackClient_create_association k cfg username resource_id =
     py_try
       (py_bind (KeystoneClient_get_project k cfg resource_id None)
          (\<lambda>found.
             py_bind
               (case found of
                  Some p \<Rightarrow> py_return (Some p)
                | None \<Rightarrow> KeystoneClient_create_project k cfg resource_id None [])
               (\<lambda>project.
                  py_bind (KeystoneClient_ensure_user k cfg username None None None)
                    (\<lambda>user.
                       py_bind (KeystoneClient_assign_role k user project (default_role cfg))
                         (\<lambda>success.
                            if success then
                              py_return
                                (lit ''Successfully assigned role '' @ [39] @ default_role cfg
                                   @ [39] @ lit '' to user '' @ [39] @ username @ [39]
                                   @ lit '' in project '' @ [39] @ resource_id @ [39])
                            else
                              py_raise (plain KeystoneClientError
                                (lit ''Failed to assign role to user '' @ [39] @ username
                                   @ [39] @ lit '' in project '' @ [39] @ resource_id
                                   @ [39])))))))
       (\<lambda>e. py_raise (plain KeystoneClientError
              (lit ''Failed to create association for user '' @ [39] @ username @ [39]
                 @ lit '' in project '' @ [39] @ resource_id @ [39] @ lit '': ''
                 @ message e)))"

definition OpenStackClient_delete_association ::
  "'w sdk \<Rightarrow> OpenStackConfig \<Rightarrow> pystr \<Rightarrow> pystr \<Rightarrow> ('w, pystr) py" where
  "OpenStackClient_delete_association k cfg username resource_id =
     py_try
       (py_bind (KeystoneClient_get_project k cfg resource_id None)
          (\<lambda>project. case project of
             None \<Rightarrow>
               py_return (lit ''Project '' @ [39] @ resource_id @ [39] @ lit '' not found'')
           | Some p \<Rightarrow>
               py_bind (KeystoneClient_get_user k cfg username None)
                 (\<lambda>user. case user of
                    None \<Rightarrow>
                      py_return (lit ''User '' @ [39] @ username @ [39] @ lit '' not found'')
                  | Some u \<Rightarrow>
                      py_bind (KeystoneClient_revoke_all_project_roles k u p)
                        (\<lambda>success.
                           if success then
                             py_return
                               (lit ''Successfully revoked all roles from user '' @ [39]
                                  @ username @ [39] @ lit '' in project '' @ [39]
                                  @ resource_id @ [39])
                           else
                             py_raise (plain KeystoneClientError
                               (lit ''Failed to revoke roles from user '' @ [39] @ username
                                  @ [39] @ lit '' in project '' @ [39] @ resource_id
                                  @ [39]))))))
       (\<lambda>e. py_raise (plain KeystoneClientError
              (lit ''Failed to delete association for user '' @ [39] @ username @ [39]
                 @ lit '' from project '' @ [39] @ resource_id @ [39] @ lit '': ''
                 @ message e)))"

section \<open>backends.py\<close>

text \<open>
  The resource object the agent hands over. A field is \<open>None\<close> when the object has no
  such attribute or the attribute is \<open>None\<close>; \<open>res_uuid\<close> is what \<open>str\<close> makes
  of the attribute.
\<close>

record WaldurResource =
  res_uuid :: "pystr option"
  res_name :: "pystr option"
  res_description :: "pystr option"
  res_backend_id :: "pystr option"

text \<open>\<open>hasattr(r, a) and r.a\<close> on a string attribute: present and not empty.\<close>

definition truthy :: "pystr option \<Rightarrow> bool" where
  "truthy x = (case x of None \<Rightarrow> False | Some v \<Rightarrow> v \<noteq> [])"

definition extract_backend_id :: "WaldurResource \<Rightarrow> pystr" where
  "extract_backend_id r =
     (case res_backend_id r of
        Some b \<Rightarrow> if b \<noteq> [] then b
                  else (case res_uuid r of Some u \<Rightarrow> u | None \<Rightarrow> [])
      | None \<Rightarrow> (case res_uuid r of Some u \<Rightarrow> u | None \<Rightarrow> []))"

text \<open>
  \<open>_create_resource_in_backend\<close>. The clause \<open>except BackendError: raise\<close> passes a
  \<open>BackendError\<close> on as it is; any other exception is wrapped.
\<close>

definition create_resource_except :: "exn \<Rightarrow> ('w, 'a) py" where
  "create_resource_except e =
     (if isinstance e BackendError then py_raise e
      else py_raise (plain BackendError
             (lit ''Failed to create OpenStack project: '' @ message e)))"

definition create_resource_in_backend ::
  "'w sdk \<Rightarrow> OpenStackConfig \<Rightarrow> WaldurResource \<Rightarrow> ('w, pystr) py" where
  "create_resource_in_backend k cfg waldur_resource =
     py_try
       (if \<not> truthy (res_uuid waldur_resource) then
          py_raise (plain BackendError
            (lit ''Cannot create resource: waldur_resource.uuid is missing. ''
               @ lit ''UUID is required as the stable backend_id for OpenStack project naming.''))
        else
          (let backend_id = (case res_uuid waldur_resource of Some u \<Rightarrow> u | None \<Rightarrow> []) in
           case validate_backend_id backend_id (lit ''waldur_managed_project'') of
             Inl e \<Rightarrow> py_raise e
           | Inr ok \<Rightarrow>
               (let project_name = sanitize_for_openstack backend_id in
                py_bind (OpenStackClient_get_project k cfg project_name)
                  (\<lambda>existing_project. case existing_project of
                     Some p \<Rightarrow> py_return backend_id
                   | None \<Rightarrow>
                       (let description =
                              (if truthy (res_name waldur_resource) then
                                 lit ''Waldur: ''
                                   @ (case res_name waldur_resource of Some n \<Rightarrow> n | None \<Rightarrow> [])
                               else if truthy (res_description waldur_resource) then
                                 (case res_description waldur_resource of
                                    Some d \<Rightarrow> d | None \<Rightarrow> [])
                               else lit ''Waldur managed project'')
                        in py_bind
                             (OpenStackClient_create_project k cfg project_name description)
                             (\<lambda>project. py_return backend_id))))))
       create_resource_except"

text \<open>The guard of the three public operations: \<open>not backend_id or not backend_id.strip()\<close>.\<close>

definition no_backend_id :: "pystr \<Rightarrow> bool" where
  "no_backend_id backend_id = (backend_id = [] \<or> strip backend_id = [])"

definition OpenStackBackend_delete_resource ::
  "'w sdk \<Rightarrow> OpenStackConfig \<Rightarrow> WaldurResource \<Rightarrow> ('w, unit) py" where
  "OpenStackBackend_delete_resource k cfg waldur_resource =
     py_try
       (let resource_backend_id = extract_backend_id waldur_resource in
        if no_backend_id resource_backend_id then py_return ()
        else
          (case validate_backend_id resource_backend_id (lit ''waldur_managed_project'') of
             Inl e \<Rightarrow> py_raise e
           | Inr ok \<Rightarrow>
               py_bind
                 (OpenStackClient_delete_resource k cfg
                    (sanitize_for_openstack resource_backend_id))
                 (\<lambda>result. py_return ())))
       (\<lambda>e. py_raise (plain BackendError (lit ''Error deleting project: '' @ message e)))"

text \<open>
  The handlers of \<open>add_users_to_resource\<close> and \<open>remove_users_from_resource\<close> build
  their message from the local variable \<open>project_name\<close>. The argument is that
  variable: \<open>None\<close> while it is not assigned, which is the case when
  \<open>validate_backend_id\<close> raised. Reading it then raises \<open>UnboundLocalError\<close> inside
  the handler (the text is CPython 3.11's).
\<close>

definition read_project_name :: "pystr option \<Rightarrow> ('w, pystr) py" where
  "read_project_name project_name =
     (case project_name of
        Some n \<Rightarrow> py_return n
      | None \<Rightarrow> py_raise (plain UnboundLocalError
          (lit ''cannot access local variable '' @ [39] @ lit ''project_name'' @ [39]
             @ lit '' where it is not associated with a value'')))"

definition add_users_except :: "pystr option \<Rightarrow> exn \<Rightarrow> ('w, 'a) py" where
  "add_users_except project_name e =
     py_bind (read_project_name project_name)
       (\<lambda>n. py_raise (plain BackendError
          (lit ''Error adding users to project ['' @ n @ lit '']: '' @ message e)))"

text \<open>
  The \<open>for\<close> loop of \<open>add_users_to_resource\<close> over the user identifiers in the order
  the set yields them, with the current value of \<open>added_users\<close>.
\<close>

fun add_users_loop ::
  "'w sdk \<Rightarrow> OpenStackConfig \<Rightarrow> pystr \<Rightarrow> pystr list \<Rightarrow> pystr set \<Rightarrow> ('w, pystr set) py"
  where
  "add_users_loop k cfg project_name [] added_users = py_return added_users"
| "add_users_loop k cfg project_name (user_id # user_ids) added_users =
     py_bind
       (py_try
          (py_bind (OpenStackClient_create_association k cfg user_id project_name)
             (\<lambda>result. py_return (insert user_id added_users)))
          (\<lambda>e. py_return added_users))
       (\<lambda>added_users'. add_users_loop k cfg project_name user_ids added_users')"

definition OpenStackBackend_add_users_to_resource ::
  "'w sdk \<Rightarrow> OpenStackConfig \<Rightarrow> pystr \<Rightarrow> pystr list \<Rightarrow> ('w, pystr set) py" where
  "OpenStackBackend_add_users_to_resource k cfg resource_backend_id user_ids =
     (if no_backend_id resource_backend_id then py_return {}
      else
        (case validate_backend_id resource_backend_id (lit ''waldur_managed_project'') of
           Inl e \<Rightarrow> add_users_except None e
         | Inr ok \<Rightarrow>
             (let project_name = sanitize_for_openstack resource_backend_id in
              py_try
                (py_bind (OpenStackClient_get_resource k cfg project_name)
                   (\<lambda>existing_resource. case existing_resource of
                      None \<Rightarrow>
                        py_raise (plain BackendError
                          (lit ''Project '' @ project_name @ lit '' not found in OpenStack! ''
                             @ lit ''Projects should be created via _pre_create_resource(), not here. ''
                             @ lit ''Skipping user sync.''))
                    | Some r \<Rightarrow> add_users_loop k cfg project_name user_ids {}))
                (add_users_except (Some project_name)))))"

definition remove_users_except :: "pystr option \<Rightarrow> exn \<Rightarrow> ('w, 'a) py" where
  "remove_users_except project_name e =
     py_bind (read_project_name project_name)
       (\<lambda>n. py_raise (plain BackendError
          (lit ''Error removing users from project ['' @ n @ lit '']: '' @ message e)))"

fun remove_users_loop ::
  "'w sdk \<Rightarrow> OpenStackConfig \<Rightarrow> pystr \<Rightarrow> pystr list \<Rightarrow> pystr list \<Rightarrow> ('w, pystr list) py"
  where
  "remove_users_loop k cfg project_name [] removed_users = py_return removed_users"
| "remove_users_loop k cfg project_name (username # usernames) removed_users =
     py_bind
       (py_try
          (py_bind (OpenStackClient_delete_association k cfg username project_name)
             (\<lambda>result. py_return (removed_users @ [username])))
          (\<lambda>e. py_return removed_users))
       (\<lambda>removed_users'. remove_users_loop k cfg project_name usernames removed_users')"

definition OpenStackBackend_remove_users_from_resource ::
  "'w sdk \<Rightarrow> OpenStackConfig \<Rightarrow> pystr \<Rightarrow> pystr list \<Rightarrow> ('w, pystr list) py" where
  "OpenStackBackend_remove_users_from_resource k cfg resource_backend_id usernames =
     (if no_backend_id resource_backend_id then py_return []
      else
        (case validate_backend_id resource_backend_id (lit ''waldur_managed_project'') of
           Inl e \<Rightarrow> remove_users_except None e
         | Inr ok \<Rightarrow>
             (let project_name = sanitize_for_openstack resource_backend_id in
              py_try
                (py_bind (OpenStackClient_get_resource k cfg project_name)
                   (\<lambda>existing_resource. case existing_resource of
                      None \<Rightarrow> py_return []
                    | Some r \<Rightarrow> remove_users_loop k cfg project_name usernames []))
                (remove_users_except (Some project_name)))))"

section \<open>A reference identity service\<close>

text \<open>
  An in-memory identity service to run the operations on, in the way the repository's
  unit tests run them on a mock: domains, projects, users, roles and role assignments,
  names unique where the real service keeps them unique (a second creation raises
  \<open>Conflict\<close>), and a plan of injected failures. The plan is consumed one entry per
  call: \<open>Some e\<close> makes the call raise \<open>e\<close> with no effect, \<open>None\<close> (or an
  exhausted plan) lets it through.
\<close>

record keystone_service =
  ks_domains :: "domain list"
  ks_projects :: "project list"
  ks_users :: "user list"
  ks_roles :: "role list"
  ks_assignments :: "assignment list"
  ks_next_id :: nat
  ks_faults :: "exn option list"

definition with_faults ::
  "(keystone_service \<Rightarrow> (exn + 'a) \<times> keystone_service)
     \<Rightarrow> keystone_service \<Rightarrow> (exn + 'a) \<times> keystone_service" where
  "with_faults op w =
     (case ks_faults w of
        [] \<Rightarrow> op w
      | None # fs \<Rightarrow> op (w\<lparr>ks_faults := fs\<rparr>)
      | Some e # fs \<Rightarrow> (Inl e, w\<lparr>ks_faults := fs\<rparr>))"

definition http_conflict :: exn where
  "http_conflict = Exn Conflict (lit ''Conflict (HTTP 409)'') (Some (lit ''409'')) (Some [])"

definition http_not_found :: exn where
  "http_not_found = Exn ClientException (lit ''Not Found (HTTP 404)'') (Some (lit ''404'')) (Some [])"

definition bad_request :: exn where
  "bad_request = Exn ClientException (lit ''Bad Request (HTTP 400)'') (Some (lit ''400'')) (Some [])"

definition unavailable :: exn where
  "unavailable = Exn ClientException (lit ''Service Unavailable (HTTP 503)'') (Some (lit ''503'')) (Some [])"

definition in_domain :: "domain option \<Rightarrow> nat \<Rightarrow> bool" where
  "in_domain domain did = (case domain of None \<Rightarrow> True | Some d \<Rightarrow> did = dom_id d)"

definition ref_domains_list :: "pystr \<Rightarrow> keystone_service \<Rightarrow> (exn + domain list) \<times> keystone_service" where
  "ref_domains_list n =
     with_faults (\<lambda>w. (Inr (filter (\<lambda>d. dom_name d = n) (ks_domains w)), w))"

definition ref_domains_create ::
  "pystr \<Rightarrow> pystr \<Rightarrow> bool \<Rightarrow> keystone_service \<Rightarrow> (exn + domain) \<times> keystone_service" where
  "ref_domains_create n description enabled =
     with_faults (\<lambda>w.
       if list_ex (\<lambda>d. dom_name d = n) (ks_domains w) then (Inl http_conflict, w)
       else (Inr \<lparr>dom_id = ks_next_id w, dom_name = n\<rparr>,
             w\<lparr>ks_domains := ks_domains w @ [\<lparr>dom_id = ks_next_id w, dom_name = n\<rparr>],
               ks_next_id := Suc (ks_next_id w)\<rparr>))"

definition ref_projects_list ::
  "pystr \<Rightarrow> domain option \<Rightarrow> keystone_service \<Rightarrow> (exn + project list) \<times> keystone_service" where
  "ref_projects_list n domain =
     with_faults (\<lambda>w.
       (Inr (filter (\<lambda>p. proj_name p = n \<and> in_domain domain (proj_domain_id p))
               (ks_projects w)), w))"

definition ref_projects_create ::
  "pystr \<Rightarrow> domain option \<Rightarrow> pystr \<Rightarrow> bool \<Rightarrow> keystone_service
     \<Rightarrow> (exn + project) \<times> keystone_service" where
  "ref_projects_create n domain description enabled =
     with_faults (\<lambda>w.
       case domain of
         None \<Rightarrow> (Inl bad_request, w)
       | Some d \<Rightarrow>
           if list_ex (\<lambda>p. proj_name p = n \<and> proj_domain_id p = dom_id d) (ks_projects w)
           then (Inl http_conflict, w)
           else
             (Inr \<lparr>proj_id = ks_next_id w, proj_name = n, proj_domain_id = dom_id d,
                   proj_description = description, proj_enabled = enabled\<rparr>,
              w\<lparr>ks_projects := ks_projects w @
                   [\<lparr>proj_id = ks_next_id w, proj_name = n, proj_domain_id = dom_id d,
                     proj_description = description, proj_enabled = enabled\<rparr>],
                ks_next_id := Suc (ks_next_id w)\<rparr>))"

definition ref_projects_delete ::
  "project \<Rightarrow> keystone_service \<Rightarrow> (exn + unit) \<times> keystone_service" where
  "ref_projects_delete p =
     with_faults (\<lambda>w.
       if list_ex (\<lambda>q. proj_id q = proj_id p) (ks_projects w) then
         (Inr (),
          w\<lparr>ks_projects := filter (\<lambda>q. proj_id q \<noteq> proj_id p) (ks_projects w),
            ks_assignments :=
              filter (\<lambda>a. asg_project_id a \<noteq> proj_id p) (ks_assignments w)\<rparr>)
       else (Inl http_not_found, w))"

definition ref_users_list ::
  "pystr \<Rightarrow> domain option \<Rightarrow> keystone_service \<Rightarrow> (exn + user list) \<times> keystone_service" where
  "ref_users_list n domain =
     with_faults (\<lambda>w.
       (Inr (filter (\<lambda>u. usr_name u = n \<and> in_domain domain (usr_domain_id u)) (ks_users w)),
        w))"

definition ref_users_create ::
  "pystr \<Rightarrow> pystr option \<Rightarrow> domain option \<Rightarrow> bool \<Rightarrow> keystone_service
     \<Rightarrow> (exn + user) \<times> keystone_service" where
  "ref_users_create n email domain enabled =
     with_faults (\<lambda>w.
       case domain of
         None \<Rightarrow> (Inl bad_request, w)
       | Some d \<Rightarrow>
           if list_ex (\<lambda>u. usr_name u = n \<and> usr_domain_id u = dom_id d) (ks_users w)
           then (Inl http_conflict, w)
           else
             (Inr \<lparr>usr_id = ks_next_id w, usr_name = n, usr_email = email,
                   usr_domain_id = dom_id d, usr_enabled = enabled\<rparr>,
              w\<lparr>ks_users := ks_users w @
                   [\<lparr>usr_id = ks_next_id w, usr_name = n, usr_email = email,
                     usr_domain_id = dom_id d, usr_enabled = enabled\<rparr>],
                ks_next_id := Suc (ks_next_id w)\<rparr>))"

definition ref_users_update ::
  "user \<Rightarrow> pystr \<Rightarrow> keystone_service \<Rightarrow> (exn + unit) \<times> keystone_service" where
  "ref_users_update u email =
     with_faults (\<lambda>w.
       if list_ex (\<lambda>v. usr_id v = usr_id u) (ks_users w) then
         (Inr (),
          w\<lparr>ks_users :=
               map (\<lambda>v. if usr_id v = usr_id u then v\<lparr>usr_email := Some email\<rparr> else v)
                 (ks_users w)\<rparr>)
       else (Inl http_not_found, w))"

definition ref_roles_list :: "pystr \<Rightarrow> keystone_service \<Rightarrow> (exn + role list) \<times> keystone_service" where
  "ref_roles_list n =
     with_faults (\<lambda>w. (Inr (filter (\<lambda>r. role_name r = n) (ks_roles w)), w))"

definition ref_roles_create :: "pystr \<Rightarrow> keystone_service \<Rightarrow> (exn + role) \<times> keystone_service" where
  "ref_roles_create n =
     with_faults (\<lambda>w.
       if list_ex (\<lambda>r. role_name r = n) (ks_roles w) then (Inl http_conflict, w)
       else (Inr \<lparr>role_id = ks_next_id w, role_name = n\<rparr>,
             w\<lparr>ks_roles := ks_roles w @ [\<lparr>role_id = ks_next_id w, role_name = n\<rparr>],
               ks_next_id := Suc (ks_next_id w)\<rparr>))"

text \<open>Granting is idempotent in the service; a missing argument is refused.\<close>

definition ref_roles_grant ::
  "role option \<Rightarrow> user option \<Rightarrow> project option \<Rightarrow> keystone_service
     \<Rightarrow> (exn + unit) \<times> keystone_service" where
  "ref_roles_grant r u p =
     with_faults (\<lambda>w.
       case (r, u, p) of
         (Some r', Some u', Some p') \<Rightarrow>
           (Inr (),
            if list_ex (\<lambda>a. asg_role_id a = role_id r' \<and> asg_user_id a = usr_id u'
                             \<and> asg_project_id a = proj_id p') (ks_assignments w)
            then w
            else w\<lparr>ks_assignments := ks_assignments w @
                     [\<lparr>asg_role_id = role_id r', asg_user_id = usr_id u',
                       asg_project_id = proj_id p'\<rparr>]\<rparr>)
       | _ \<Rightarrow> (Inl bad_request, w))"

definition ref_roles_revoke ::
  "nat \<Rightarrow> user \<Rightarrow> project \<Rightarrow> keystone_service \<Rightarrow> (exn + unit) \<times> keystone_service" where
  "ref_roles_revoke rid u p =
     with_faults (\<lambda>w.
       if list_ex (\<lambda>a. asg_role_id a = rid \<and> asg_user_id a = usr_id u
                        \<and> asg_project_id a = proj_id p) (ks_assignments w)
       then (Inr (),
             w\<lparr>ks_assignments :=
                  filter (\<lambda>a. \<not> (asg_role_id a = rid \<and> asg_user_id a = usr_id u
                                  \<and> asg_project_id a = proj_id p)) (ks_assignments w)\<rparr>)
       else (Inl http_not_found, w))"

definition ref_role_assignments_list ::
  "user \<Rightarrow> project \<Rightarrow> keystone_service \<Rightarrow> (exn + assignment list) \<times> keystone_service" where
  "ref_role_assignments_list u p =
     with_faults (\<lambda>w.
       (Inr (filter (\<lambda>a. asg_user_id a = usr_id u \<and> asg_project_id a = proj_id p)
               (ks_assignments w)), w))"

definition ref_sdk :: "keystone_service sdk" where
  "ref_sdk = \<lparr>domains_list = ref_domains_list, domains_create = ref_domains_create,
     projects_list = ref_projects_list, projects_create = ref_projects_create,
     projects_delete = ref_projects_delete, users_list = ref_users_list,
     users_create = ref_users_create, users_update = ref_users_update,
     roles_list = ref_roles_list, roles_create = ref_roles_create,
     roles_grant = ref_roles_grant, roles_revoke = ref_roles_revoke,
     role_assignments_list = ref_role_assignments_list\<rparr>"

text \<open>The configuration's defaults, and services to start from.\<close>

definition default_config :: OpenStackConfig where
  "default_config = \<lparr>domain_name = lit ''Default'', default_role = lit ''_member_'',
     create_users_if_not_exist = True, sync_user_emails = True,
     user_enabled_by_default = True\<rparr>"

definition empty_service :: keystone_service where
  "empty_service = \<lparr>ks_domains = [], ks_projects = [], ks_users = [], ks_roles = [],
     ks_assignments = [], ks_next_id = 1, ks_faults = []\<rparr>"

text \<open>
  A site: the domain \<open>Default\<close>, the project \<open>abc-123\<close>, the users \<open>alice\<close>,
  \<open>bob\<close> and \<open>carol\<close>, three roles, and \<open>alice\<close> holding all three in the project.
\<close>

definition default_domain :: domain where
  "default_domain = \<lparr>dom_id = 1, dom_name = lit ''Default''\<rparr>"

definition abc_project :: project where
  "abc_project = \<lparr>proj_id = 2, proj_name = lit ''abc-123'', proj_domain_id = 1,
     proj_description = lit ''Waldur: Alpha'', proj_enabled = True\<rparr>"

definition person :: "nat \<Rightarrow> string \<Rightarrow> user" where
  "person i n = \<lparr>usr_id = i, usr_name = lit n, usr_email = None, usr_domain_id = 1,
     usr_enabled = True\<rparr>"

definition holds :: "nat \<Rightarrow> nat \<Rightarrow> assignment" where
  "holds r u = \<lparr>asg_role_id = r, asg_user_id = u, asg_project_id = 2\<rparr>"

definition site :: "exn option list \<Rightarrow> keystone_service" where
  "site faults = \<lparr>ks_domains = [default_domain], ks_projects = [abc_project],
     ks_users = [person 3 ''alice'', person 5 ''bob'', person 6 ''carol''],
     ks_roles = [\<lparr>role_id = 4, role_name = lit ''_member_''\<rparr>,
                 \<lparr>role_id = 7, role_name = lit ''admin''\<rparr>,
                 \<lparr>role_id = 8, role_name = lit ''reader''\<rparr>],
     ks_assignments = [holds 4 3, holds 7 3, holds 8 3],
     ks_next_id = 9, ks_faults = faults\<rparr>"

text \<open>
  What revoking each of the assignments in turn gives, whatever the earlier outcomes:
  one flag per assignment (true when the revocation succeeded) and the service left.
\<close>

fun revoke_outcomes ::
  "'w sdk \<Rightarrow> user \<Rightarrow> project \<Rightarrow> assignment list \<Rightarrow> 'w \<Rightarrow> bool list \<times> 'w" where
  "revoke_outcomes k u p [] w = ([], w)"
| "revoke_outcomes k u p (a # assignments) w =
     (case roles_revoke k (asg_role_id a) u p w of
        (r, w') \<Rightarrow>
          (case revoke_outcomes k u p assignments w' of
             (bs, w'') \<Rightarrow> ((\<not> isl r) # bs, w'')))"

text \<open>The message of the error \<open>add_users_to_resource\<close> raises for a missing project.\<close>

definition project_not_found :: "pystr \<Rightarrow> pystr" where
  "project_not_found n = lit ''Project '' @ n @ lit '' not found in OpenStack! ''
     @ lit ''Projects should be created via _pre_create_resource(), not here. ''
     @ lit ''Skipping user sync.''"

text \<open>The error of reading \<open>project_name\<close> before its assignment.\<close>

definition unbound_project_name :: exn where
  "unbound_project_name = plain UnboundLocalError
     (lit ''cannot access local variable '' @ [39] @ lit ''project_name'' @ [39]
        @ lit '' where it is not associated with a value'')"

text \<open>A resource that carries only a backend identifier, as a deletion receives it.\<close>

definition by_backend_id :: "pystr \<Rightarrow> WaldurResource" where
  "by_backend_id b = \<lparr>res_uuid = None, res_name = None, res_description = None,
     res_backend_id = Some b\<rparr>"


section \<open>Verification\<close>

subsection \<open>Sanitization\<close>

lemma alnum_spec: "is_ascii_alnum c \<longleftrightarrow> c \<in> spec_alphanumeric"
  unfolding is_ascii_alnum_def is_ascii_lower_def is_ascii_upper_def is_ascii_digit_def
    spec_alphanumeric_def lit_def
  by simp arith

lemma digit_spec: "is_ascii_digit c \<longleftrightarrow> c \<in> spec_digits"
  unfolding is_ascii_digit_def spec_digits_def lit_def
  by simp arith

lemma allowed_spec: "allowed_char c \<longleftrightarrow> c \<in> spec_alphanumeric \<union> set (lit ''_.-'')"
  by (auto simp: allowed_char_def alnum_spec lit_def)

lemma spec_replace_spaces_map:
  "spec_replace_spaces s = map (\<lambda>c. if c = 32 then 95 else c) s"
  by (induction s) simp_all

lemma spec_strip_outside_filter: "spec_strip_outside s = filter allowed_char s"
  by (induction s) (simp_all add: allowed_spec)

lemma spec_strip_leading_dropWhile:
  "spec_strip_leading s = dropWhile (\<lambda>c. \<not> is_ascii_alnum c) s"
  by (induction s) (simp_all add: alnum_spec)

lemma spec_all_digits_isdigit: "spec_all_digits s = isdigit s"
  by (auto simp: spec_all_digits_def isdigit_def list_all_iff digit_spec)

lemma sanitize_refines_spec:
  "sanitize_for_openstack s = spec_sanitize (lit ''sanitizer_default_name'') s"
  by (simp add: sanitize_for_openstack_def spec_sanitize_def Let_def
      spec_replace_spaces_map spec_strip_outside_filter spec_strip_leading_dropWhile
      spec_all_digits_isdigit lit_def)

lemma allowed_not_space: "allowed_char c \<Longrightarrow> c \<noteq> 32"
  by (auto simp: allowed_char_def is_ascii_alnum_def is_ascii_lower_def is_ascii_upper_def
      is_ascii_digit_def)

lemma sanitize_fixpoint:
  assumes "list_all allowed_char t" and "t \<noteq> []" and "is_ascii_alnum (hd t)"
    and "\<not> isdigit t"
  shows "sanitize_for_openstack t = t"
proof -
  have m: "map (\<lambda>c. if c = 32 then 95 else c) t = t"
    using assms(1) by (induction t) (auto dest: allowed_not_space)
  have f: "filter allowed_char t = t"
    using assms(1) by (simp add: list_all_iff)
  have d: "dropWhile (\<lambda>c. \<not> is_ascii_alnum c) t = t"
    using assms(2,3) by (cases t) simp_all
  show ?thesis
    using assms(2,4) by (simp add: sanitize_for_openstack_def Let_def m f d)
qed

lemma core_allowed: "list_all allowed_char (core s)"
  unfolding core_def list_all_iff
proof
  fix x
  assume "x \<in> set (dropWhile (\<lambda>c. \<not> is_ascii_alnum c)
     (filter allowed_char (map (\<lambda>c. if c = 32 then 95 else c) s)))"
  then have "x \<in> set (filter allowed_char (map (\<lambda>c. if c = 32 then 95 else c) s))"
    by (rule set_dropWhileD)
  then show "allowed_char x" by simp
qed

lemma core_hd: "core s \<noteq> [] \<Longrightarrow> is_ascii_alnum (hd (core s))"
  unfolding core_def
  by (drule hd_dropWhile) simp

lemma sanitize_core:
  "sanitize_for_openstack s =
     (if core s = [] then lit ''sanitizer_default_name''
      else if isdigit (core s) then lit ''project_'' @ core s else core s)"
proof -
  have e: "isdigit [] = False" by (simp add: isdigit_def)
  have n: "lit ''project_'' @ core s \<noteq> []" by (simp add: lit_def)
  show ?thesis
  proof (cases "core s = []")
    case True
    then show ?thesis
      unfolding sanitize_for_openstack_def Let_def core_def[symmetric] by (simp add: e)
  next
    case False
    then show ?thesis
      unfolding sanitize_for_openstack_def Let_def core_def[symmetric]
      by (cases "isdigit (core s)") (simp_all add: n)
  qed
qed

lemma sanitize_shape:
  "list_all allowed_char (sanitize_for_openstack s) \<and> sanitize_for_openstack s \<noteq> [] \<and>
   is_ascii_alnum (hd (sanitize_for_openstack s)) \<and> \<not> isdigit (sanitize_for_openstack s)"
proof (cases "core s = []")
  case True
  then show ?thesis
    by (simp add: sanitize_core lit_def allowed_char_def is_ascii_alnum_def is_ascii_lower_def
        is_ascii_upper_def is_ascii_digit_def isdigit_def)
next
  case False
  show ?thesis
  proof (cases "isdigit (core s)")
    case True
    with False core_allowed[of s] show ?thesis
      by (simp add: sanitize_core lit_def allowed_char_def is_ascii_alnum_def is_ascii_lower_def
        is_ascii_upper_def is_ascii_digit_def isdigit_def)
  next
    case d: False
    with False core_allowed[of s] core_hd[of s] show ?thesis
      by (simp add: sanitize_core)
  qed
qed

text \<open>
  Claim C2. For every string \<open>s\<close>, sanitizing twice is sanitizing once; the result is
  never empty, starts with an ASCII letter or digit, and is never all digits; and the
  function computes exactly the rule of the specification, with
  \<open>sanitizer_default_name\<close> as the fallback literal.
\<close>

theorem sanitize_total_idempotent:
  "sanitize_for_openstack (sanitize_for_openstack s) = sanitize_for_openstack s \<and>
   sanitize_for_openstack s \<noteq> [] \<and>
   is_ascii_alnum (hd (sanitize_for_openstack s)) \<and>
   \<not> isdigit (sanitize_for_openstack s) \<and>
   sanitize_for_openstack s = spec_sanitize (lit ''sanitizer_default_name'') s"
  using sanitize_shape[of s] sanitize_fixpoint[of "sanitize_for_openstack s"]
    sanitize_refines_spec[of s]
  by simp

theorem sanitize_total_idempotent_witness:
  "sanitize_for_openstack (lit '' 007!'') = lit ''project_007'' \<and>
   sanitize_for_openstack (sanitize_for_openstack (lit '' 007!'')) = lit ''project_007'' \<and>
   spec_sanitize (lit ''sanitizer_default_name'') (lit '' 007!'') = lit ''project_007''"
proof -
  have e: "sanitize_for_openstack (lit '' 007!'') = lit ''project_007''"
    by code_simp
  from sanitize_total_idempotent[of "lit '' 007!''"] e show ?thesis by metis
qed

subsection \<open>The retry wrapper\<close>

declare retry_loop.simps [simp del]



lemma retry_loop_uncaught:
  assumes "attempt \<le> max_attempts cfg" and "func s = (Inl e, s')" and "\<not> is_caught cfg e"
  shows "retry_loop cfg func attempt le s = (Inl e, s')"
  using assms by (subst retry_loop.simps) simp

lemma retry_loop_success:
  assumes "attempt \<le> max_attempts cfg" and "func s = (Inr v, s')"
  shows "retry_loop cfg func attempt le s = (Inr v, s')"
  using assms by (subst retry_loop.simps) simp






subsection \<open>Effects\<close>

lemma py_return_apply [simp]: "py_return v s = (Inr v, s)"
  by (simp add: py_return_def)

lemma py_raise_apply [simp]: "py_raise e s = (Inl e, s)"
  by (simp add: py_raise_def)

lemma py_bind_Inr: "m s = (Inr v, s') \<Longrightarrow> py_bind m f s = f v s'"
  by (simp add: py_bind_def)

lemma py_bind_Inl: "m s = (Inl e, s') \<Longrightarrow> py_bind m f s = (Inl e, s')"
  by (simp add: py_bind_def)

lemma py_try_Inr: "m s = (Inr v, s') \<Longrightarrow> py_try m h s = (Inr v, s')"
  by (simp add: py_try_def)

lemma py_try_Inl: "m s = (Inl e, s') \<Longrightarrow> py_try m h s = h e s'"
  by (simp add: py_try_def)

lemma py_try_absorbs:
  assumes "\<And>e t. \<exists>v t'. h e t = (Inr v, t')"
  shows "\<exists>v s'. py_try m h s = (Inr v, s')"
proof (cases "m s")
  case (Pair r s')
  then show ?thesis
    using assms by (cases r) (simp_all add: py_try_def)
qed

lemma sdk_call_apply:
  "op (service s) = (r, w) \<Longrightarrow>
   sdk_call c op s = (r, s\<lparr>service := w, calls := calls s @ [c]\<rparr>)"
  by (simp add: sdk_call_def)

subsection \<open>Lookups\<close>

lemma get_domain_total: "\<exists>r s'. KeystoneClient_get_domain k n s = (Inr r, s')"
  unfolding KeystoneClient_get_domain_def by (rule py_try_absorbs) simp

lemma get_project_total: "\<exists>r s'. KeystoneClient_get_project k cfg n dm s = (Inr r, s')"
  unfolding KeystoneClient_get_project_def by (rule py_try_absorbs) simp

lemma get_user_total: "\<exists>r s'. KeystoneClient_get_user k cfg n dm s = (Inr r, s')"
  unfolding KeystoneClient_get_user_def by (rule py_try_absorbs) simp

lemma get_role_total: "\<exists>r s'. KeystoneClient_get_role k n s = (Inr r, s')"
  unfolding KeystoneClient_get_role_def by (rule py_try_absorbs) simp

lemma first_or_none_Nil [simp]: "first_or_none [] = None"
  by (simp add: first_or_none_def)

lemma first_or_none_Cons [simp]: "first_or_none (x # xs) = Some x"
  by (simp add: first_or_none_def)

lemma absent_cases: "isl x \<or> x = Inr [] \<Longrightarrow> (\<exists>e. x = Inl e) \<or> x = Inr []"
  by (cases x) auto

lemma get_domain_absent:
  assumes "domains_list k n (service s) = (x, w)" and "isl x \<or> x = Inr []"
  shows "KeystoneClient_get_domain k n s =
         (Inr None, s\<lparr>service := w, calls := calls s @ [DomainsList n]\<rparr>)"
  using absent_cases[OF assms(2)] assms(1)
  by (auto simp: KeystoneClient_get_domain_def py_try_def py_bind_def sdk_call_def)

lemma get_role_absent:
  assumes "roles_list k n (service s) = (x, w)" and "isl x \<or> x = Inr []"
  shows "KeystoneClient_get_role k n s =
         (Inr None, s\<lparr>service := w, calls := calls s @ [RolesList n]\<rparr>)"
  using absent_cases[OF assms(2)] assms(1)
  by (auto simp: KeystoneClient_get_role_def py_try_def py_bind_def sdk_call_def)

lemma get_project_absent:
  assumes "(case dm of None \<Rightarrow> KeystoneClient_get_domain k (domain_name cfg)
            | Some d \<Rightarrow> py_return (Some d)) s = (Inr dm', s1)"
    and "projects_list k n dm' (service s1) = (x, w)" and "isl x \<or> x = Inr []"
  shows "KeystoneClient_get_project k cfg n dm s =
         (Inr None, s1\<lparr>service := w, calls := calls s1 @ [ProjectsList n dm']\<rparr>)"
  using absent_cases[OF assms(3)] assms(1,2)
  by (auto simp: KeystoneClient_get_project_def py_try_def py_bind_def sdk_call_def)

lemma get_user_absent:
  assumes "(case dm of None \<Rightarrow> KeystoneClient_get_domain k (domain_name cfg)
            | Some d \<Rightarrow> py_return (Some d)) s = (Inr dm', s1)"
    and "users_list k n dm' (service s1) = (x, w)" and "isl x \<or> x = Inr []"
  shows "KeystoneClient_get_user k cfg n dm s =
         (Inr None, s1\<lparr>service := w, calls := calls s1 @ [UsersList n dm']\<rparr>)"
  using absent_cases[OF assms(3)] assms(1,2)
  by (auto simp: KeystoneClient_get_user_def py_try_def py_bind_def sdk_call_def)

text \<open>
  Claim C7. The four lookups of the gateway (\<open>get_domain\<close>, \<open>get_project\<close>,
  \<open>get_user\<close>, \<open>get_role\<close>) never raise, whatever the client library does; and
  they return \<open>None\<close> both when the listing call raises (any exception) and when it
  returns no entry, so the caller cannot tell the two apart. For a project or a user
  looked up without a domain, the listing call is the one made after the domain lookup.
\<close>

theorem lookups_return_absence:
  "(\<exists>r s'. KeystoneClient_get_domain k n s = (Inr r, s')) \<and>
   (\<exists>r s'. KeystoneClient_get_project k cfg n dm s = (Inr r, s')) \<and>
   (\<exists>r s'. KeystoneClient_get_user k cfg n dm s = (Inr r, s')) \<and>
   (\<exists>r s'. KeystoneClient_get_role k n s = (Inr r, s')) \<and>
   (\<forall>x w. domains_list k n (service s) = (x, w) \<and> (isl x \<or> x = Inr []) \<longrightarrow>
      fst (KeystoneClient_get_domain k n s) = Inr None) \<and>
   (\<forall>x w. roles_list k n (service s) = (x, w) \<and> (isl x \<or> x = Inr []) \<longrightarrow>
      fst (KeystoneClient_get_role k n s) = Inr None) \<and>
   (\<forall>d x w. projects_list k n (Some d) (service s) = (x, w) \<and> (isl x \<or> x = Inr []) \<longrightarrow>
      fst (KeystoneClient_get_project k cfg n (Some d) s) = Inr None) \<and>
   (\<forall>d x w. users_list k n (Some d) (service s) = (x, w) \<and> (isl x \<or> x = Inr []) \<longrightarrow>
      fst (KeystoneClient_get_user k cfg n (Some d) s) = Inr None) \<and>
   (\<forall>d s1 x w. KeystoneClient_get_domain k (domain_name cfg) s = (Inr d, s1) \<and>
      projects_list k n d (service s1) = (x, w) \<and> (isl x \<or> x = Inr []) \<longrightarrow>
      fst (KeystoneClient_get_project k cfg n None s) = Inr None) \<and>
   (\<forall>d s1 x w. KeystoneClient_get_domain k (domain_name cfg) s = (Inr d, s1) \<and>
      users_list k n d (service s1) = (x, w) \<and> (isl x \<or> x = Inr []) \<longrightarrow>
      fst (KeystoneClient_get_user k cfg n None s) = Inr None)"
proof (intro conjI allI impI)
  show "\<exists>r s'. KeystoneClient_get_domain k n s = (Inr r, s')" by (rule get_domain_total)
  show "\<exists>r s'. KeystoneClient_get_project k cfg n dm s = (Inr r, s')" by (rule get_project_total)
  show "\<exists>r s'. KeystoneClient_get_user k cfg n dm s = (Inr r, s')" by (rule get_user_total)
  show "\<exists>r s'. KeystoneClient_get_role k n s = (Inr r, s')" by (rule get_role_total)
next
  fix x w assume "domains_list k n (service s) = (x, w) \<and> (isl x \<or> x = Inr [])"
  then show "fst (KeystoneClient_get_domain k n s) = Inr None"
    using get_domain_absent[of k n s x w] by simp
next
  fix x w assume "roles_list k n (service s) = (x, w) \<and> (isl x \<or> x = Inr [])"
  then show "fst (KeystoneClient_get_role k n s) = Inr None"
    using get_role_absent[of k n s x w] by simp
next
  fix d x w assume "projects_list k n (Some d) (service s) = (x, w) \<and> (isl x \<or> x = Inr [])"
  then show "fst (KeystoneClient_get_project k cfg n (Some d) s) = Inr None"
    using get_project_absent[where dm="Some d" and dm'="Some d" and ?s1.0=s and s=s and x=x and w=w] by simp
next
  fix d x w assume "users_list k n (Some d) (service s) = (x, w) \<and> (isl x \<or> x = Inr [])"
  then show "fst (KeystoneClient_get_user k cfg n (Some d) s) = Inr None"
    using get_user_absent[where dm="Some d" and dm'="Some d" and ?s1.0=s and s=s and x=x and w=w] by simp
next
  fix d s1 x w
  assume "KeystoneClient_get_domain k (domain_name cfg) s = (Inr d, s1) \<and>
      projects_list k n d (service s1) = (x, w) \<and> (isl x \<or> x = Inr [])"
  then show "fst (KeystoneClient_get_project k cfg n None s) = Inr None"
    using get_project_absent[where dm=None and dm'=d and ?s1.0=s1 and s=s and x=x and w=w] by simp
next
  fix d s1 x w
  assume "KeystoneClient_get_domain k (domain_name cfg) s = (Inr d, s1) \<and>
      users_list k n d (service s1) = (x, w) \<and> (isl x \<or> x = Inr [])"
  then show "fst (KeystoneClient_get_user k cfg n None s) = Inr None"
    using get_user_absent[where dm=None and dm'=d and ?s1.0=s1 and s=s and x=x and w=w] by simp
qed

text \<open>
  A listing that raises and a listing that finds nothing, on the reference service: the
  lookup returns \<open>None\<close> in both.
\<close>

theorem lookups_return_absence_witness:
  "roles_list ref_sdk (lit ''_member_'') (service (fresh (site [Some unavailable]))) =
     (Inl unavailable, site []) \<and>
   fst (KeystoneClient_get_role ref_sdk (lit ''_member_'') (fresh (site [Some unavailable]))) =
     Inr None \<and>
   roles_list ref_sdk (lit ''owner'') (service (fresh (site []))) = (Inr [], site []) \<and>
   fst (KeystoneClient_get_role ref_sdk (lit ''owner'') (fresh (site []))) = Inr None"
proof -
  have a: "roles_list ref_sdk (lit ''_member_'') (service (fresh (site [Some unavailable]))) =
     (Inl unavailable, site [])"
    by code_simp
  have b: "roles_list ref_sdk (lit ''owner'') (service (fresh (site []))) = (Inr [], site [])"
    by code_simp
  from lookups_return_absence[of ref_sdk "lit ''_member_''" "fresh (site [Some unavailable])"]
    a
  have c: "fst (KeystoneClient_get_role ref_sdk (lit ''_member_'')
             (fresh (site [Some unavailable]))) = Inr None"
    by simp
  from lookups_return_absence[of ref_sdk "lit ''owner''" "fresh (site [])"] b
  have d: "fst (KeystoneClient_get_role ref_sdk (lit ''owner'') (fresh (site []))) = Inr None"
    by simp
  from a b c d show ?thesis by simp
qed

subsection \<open>Revoking all roles\<close>

lemma revoke_each_outcomes:
  "revoke_each k u p assignments b s =
     (Inr (b \<and> list_all (\<lambda>x. x) (fst (revoke_outcomes k u p assignments (service s)))),
      s\<lparr>service := snd (revoke_outcomes k u p assignments (service s)),
        calls := calls s @ map (\<lambda>a. RolesRevoke (asg_role_id a) u p) assignments\<rparr>)"
proof (induction assignments arbitrary: b s)
  case Nil
  then show ?case by simp
next
  case (Cons a assignments)
  obtain r w' where rv: "roles_revoke k (asg_role_id a) u p (service s) = (r, w')"
    by (cases "roles_revoke k (asg_role_id a) u p (service s)")
  obtain bs w'' where ro: "revoke_outcomes k u p assignments w' = (bs, w'')"
    by (cases "revoke_outcomes k u p assignments w'")
  show ?case
    using rv ro Cons.IH
    by (cases r) (auto simp: py_bind_def py_try_def sdk_call_def)
qed

text \<open>
  Claim C8. When the listing of the role assignments of the user in the project
  succeeds, \<open>revoke_all_project_roles\<close> issues one revocation for every assignment
  listed, in order, whatever the outcome of the earlier ones, and returns true exactly
  when every one of them succeeded (so also when there is none).
\<close>

theorem revoke_all_roles_independent:
  assumes "role_assignments_list k u p (service s) = (Inr assignments, w)"
  shows "KeystoneClient_revoke_all_project_roles k u p s =
     (Inr (list_all (\<lambda>x. x) (fst (revoke_outcomes k u p assignments w))),
      s\<lparr>service := snd (revoke_outcomes k u p assignments w),
        calls := calls s @ RoleAssignmentsList u p #
                 map (\<lambda>a. RolesRevoke (asg_role_id a) u p) assignments\<rparr>)"
  using assms
  by (cases assignments)
     (simp_all add: KeystoneClient_revoke_all_project_roles_def py_try_def py_bind_def
        sdk_call_def revoke_each_outcomes del: revoke_each.simps)


text \<open>
  Three assignments, the revocation of the second fails: the third is still revoked, and
  the result is false.
\<close>

theorem revoke_all_roles_independent_witness:
  "role_assignments_list ref_sdk (person 3 ''alice'') abc_project
     (service (fresh (site [None, None, Some unavailable]))) =
     (Inr [holds 4 3, holds 7 3, holds 8 3], site [None, Some unavailable]) \<and>
   KeystoneClient_revoke_all_project_roles ref_sdk (person 3 ''alice'') abc_project
     (fresh (site [None, None, Some unavailable])) =
     (Inr False,
      \<lparr>service = (site [])\<lparr>ks_assignments := [holds 7 3]\<rparr>,
       calls = [RoleAssignmentsList (person 3 ''alice'') abc_project,
                RolesRevoke 4 (person 3 ''alice'') abc_project,
                RolesRevoke 7 (person 3 ''alice'') abc_project,
                RolesRevoke 8 (person 3 ''alice'') abc_project],
       slept = []\<rparr>)"
proof -
  have a: "role_assignments_list ref_sdk (person 3 ''alice'') abc_project
     (service (fresh (site [None, None, Some unavailable]))) =
     (Inr [holds 4 3, holds 7 3, holds 8 3], site [None, Some unavailable])"
    by code_simp
  have b: "revoke_outcomes ref_sdk (person 3 ''alice'') abc_project
     [holds 4 3, holds 7 3, holds 8 3] (site [None, Some unavailable]) =
     ([True, False, True], (site [])\<lparr>ks_assignments := [holds 7 3]\<rparr>)"
    by code_simp
  from revoke_all_roles_independent[OF a, unfolded b] a show ?thesis
    by (simp add: fresh_def holds_def)
qed

subsection \<open>Calls issued by the lookups\<close>

lemma get_domain_calls:
  assumes "KeystoneClient_get_domain k n s = (r, s')"
  shows "calls s' = calls s @ [DomainsList n] \<and> slept s' = slept s \<and> (\<exists>d. r = Inr d)"
proof -
  obtain x w where o: "domains_list k n (service s) = (x, w)"
    by (cases "domains_list k n (service s)")
  show ?thesis
    using assms o
    by (cases x) (auto simp: KeystoneClient_get_domain_def py_try_def py_bind_def sdk_call_def)
qed

lemma get_project_calls:
  assumes "KeystoneClient_get_project k cfg n None s = (r, s')"
  shows "(\<exists>dm. calls s' = calls s @ [DomainsList (domain_name cfg), ProjectsList n dm]) \<and>
         slept s' = slept s \<and> (\<exists>p. r = Inr p)"
proof -
  obtain r1 s1 where g: "KeystoneClient_get_domain k (domain_name cfg) s = (r1, s1)"
    by (cases "KeystoneClient_get_domain k (domain_name cfg) s")
  from get_domain_calls[OF g] obtain dm where
    c1: "calls s1 = calls s @ [DomainsList (domain_name cfg)]" and sl: "slept s1 = slept s"
    and r1: "r1 = Inr dm" by blast
  obtain x w where o: "projects_list k n dm (service s1) = (x, w)"
    by (cases "projects_list k n dm (service s1)")
  show ?thesis
    using assms g r1 c1 sl o
    by (cases x) (auto simp: KeystoneClient_get_project_def py_try_def py_bind_def sdk_call_def)
qed


text \<open>\<open>get_resource\<close> is the project lookup, followed by a domain lookup when a project is found.\<close>

lemma get_resource_None:
  assumes "OpenStackClient_get_resource k cfg n s = (Inr None, s1)"
  shows "KeystoneClient_get_project k cfg n None s = (Inr None, s1)"
proof -
  obtain r t where g: "KeystoneClient_get_project k cfg n None s = (r, t)"
    by (cases "KeystoneClient_get_project k cfg n None s")
  from get_project_calls[OF g] obtain p where r: "r = Inr p" by blast
  show ?thesis
  proof (cases p)
    case None
    with assms g r show ?thesis
      by (simp add: OpenStackClient_get_resource_def py_try_def py_bind_def)
  next
    case (Some q)
    obtain r2 t2 where d: "KeystoneClient_get_domain k (domain_name cfg) t = (r2, t2)"
      by (cases "KeystoneClient_get_domain k (domain_name cfg) t")
    from get_domain_calls[OF d] obtain dm where "r2 = Inr dm" by blast
    with assms g r Some d show ?thesis
      by (simp add: OpenStackClient_get_resource_def py_try_def py_bind_def)
  qed
qed

lemma get_resource_None_calls:
  assumes "OpenStackClient_get_resource k cfg n s = (Inr None, s1)"
  shows "\<exists>dm. calls s1 = calls s @ [DomainsList (domain_name cfg), ProjectsList n dm]"
  using get_project_calls[OF get_resource_None[OF assms]] by blast

subsection \<open>Validation\<close>

lemma validate_ok:
  "b \<noteq> [] \<Longrightarrow> length b \<le> 255 \<Longrightarrow> validate_backend_id b t = Inr True"
  by (simp add: validate_backend_id_def)

lemma validate_too_long:
  "255 < length b \<Longrightarrow>
   validate_backend_id b t =
     Inl (plain ValueError (t @ lit '' backend_id is too long (max 255 characters)''))"
  by (auto simp: validate_backend_id_def)

lemma no_backend_id_Nil: "\<not> no_backend_id b \<Longrightarrow> b \<noteq> []"
  by (auto simp: no_backend_id_def)

subsection \<open>Blank and over-long backend identifiers\<close>

lemma strip_blank:
  assumes "list_all is_space b"
  shows "strip b = []"
proof -
  from assms have d: "dropWhile is_space b = []"
    by (induction b) simp_all
  show ?thesis unfolding strip_def d by simp
qed

lemma strip_solid:
  assumes "b \<noteq> []" and "\<not> is_space (hd b)" and "\<not> is_space (last b)"
  shows "strip b = b"
proof -
  from assms(1,2) have d: "dropWhile is_space b = b" by (cases b) simp_all
  from assms(1,3) have "dropWhile is_space (rev b) = rev b"
    by (cases "rev b") (simp_all add: last_rev[symmetric] hd_rev)
  with d show ?thesis by (simp add: strip_def)
qed

lemma not_space_97: "\<not> is_space 97"
  by (simp add: is_space_def)

lemma is_space_32: "is_space 32"
  by (simp add: is_space_def)

lemma solid_id: "0 < n \<Longrightarrow> \<not> no_backend_id (replicate n 97)"
  using strip_solid[of "replicate n 97"]
  by (cases n) (auto simp: no_backend_id_def not_space_97)

lemma blank_id: "no_backend_id (replicate n 32)"
  using strip_blank[of "replicate n 32"]
  by (simp add: no_backend_id_def list_all_iff is_space_32)

lemma nope_id: "\<not> no_backend_id (lit ''nope'')"
  by (simp add: no_backend_id_def strip_def is_space_def lit_def)

lemma space_id: "no_backend_id (lit '' '')"
  by (simp add: no_backend_id_def strip_def is_space_def lit_def)

lemma add_users_skipped:
  "no_backend_id b \<Longrightarrow> OpenStackBackend_add_users_to_resource k cfg b us s = (Inr {}, s)"
  by (simp add: OpenStackBackend_add_users_to_resource_def)

lemma remove_users_skipped:
  "no_backend_id b \<Longrightarrow>
   OpenStackBackend_remove_users_from_resource k cfg b us s = (Inr [], s)"
  by (simp add: OpenStackBackend_remove_users_from_resource_def)

lemma delete_resource_skipped:
  "no_backend_id (extract_backend_id r) \<Longrightarrow>
   OpenStackBackend_delete_resource k cfg r s = (Inr (), s)"
  by (simp add: OpenStackBackend_delete_resource_def Let_def py_try_def)

lemma add_users_too_long:
  "\<not> no_backend_id b \<Longrightarrow> 255 < length b \<Longrightarrow>
   OpenStackBackend_add_users_to_resource k cfg b us s = (Inl unbound_project_name, s)"
  by (simp add: OpenStackBackend_add_users_to_resource_def validate_too_long
      add_users_except_def read_project_name_def py_bind_def unbound_project_name_def)

lemma remove_users_too_long:
  "\<not> no_backend_id b \<Longrightarrow> 255 < length b \<Longrightarrow>
   OpenStackBackend_remove_users_from_resource k cfg b us s = (Inl unbound_project_name, s)"
  by (simp add: OpenStackBackend_remove_users_from_resource_def validate_too_long
      remove_users_except_def read_project_name_def py_bind_def unbound_project_name_def)

lemma extract_by_backend_id: "extract_backend_id (by_backend_id b) = b"
  by (simp add: extract_backend_id_def by_backend_id_def)

subsection \<open>Adding users to a missing project\<close>

text \<open>
  Claim C4, as amended. For every backend identifier that is not blank (empty or only
  whitespace) and has at most 255 characters, when the lookup of its sanitized project
  name finds no project, \<open>add_users_to_resource\<close> fails the whole call with a
  \<open>BackendError\<close> that carries the not-found message, and the only calls it issued
  are the two listings of the lookup: no role is granted and no project is created.
\<close>

theorem add_users_requires_project:
  assumes "\<not> no_backend_id b" and "length b \<le> 255"
    and "OpenStackClient_get_resource k cfg (sanitize_for_openstack b) s = (Inr None, s1)"
  shows "OpenStackBackend_add_users_to_resource k cfg b us s =
           (Inl (plain BackendError
                  (lit ''Error adding users to project ['' @ sanitize_for_openstack b
                     @ lit '']: '' @ project_not_found (sanitize_for_openstack b))), s1) \<and>
         (\<exists>dm. calls s1 = calls s @ [DomainsList (domain_name cfg),
                                     ProjectsList (sanitize_for_openstack b) dm])"
proof -
  have v: "validate_backend_id b (lit ''waldur_managed_project'') = Inr True"
    using assms(1,2) by (simp add: validate_ok no_backend_id_Nil)
  have "OpenStackBackend_add_users_to_resource k cfg b us s =
           (Inl (plain BackendError
                  (lit ''Error adding users to project ['' @ sanitize_for_openstack b
                     @ lit '']: '' @ project_not_found (sanitize_for_openstack b))), s1)"
    using assms(1,3) v
    by (simp add: OpenStackBackend_add_users_to_resource_def Let_def py_try_def py_bind_def
        add_users_except_def read_project_name_def project_not_found_def plain_def)
  with get_resource_None_calls[OF assms(3)] show ?thesis by blast
qed

text \<open>On the reference service, for a project that does not exist.\<close>

theorem add_users_requires_project_witness:
  "\<not> no_backend_id (lit ''nope'') \<and> length (lit ''nope'') \<le> 255 \<and>
   OpenStackClient_get_resource ref_sdk default_config (sanitize_for_openstack (lit ''nope''))
     (fresh (site [])) =
     (Inr None, \<lparr>service = site [],
        calls = [DomainsList (lit ''Default''),
                 ProjectsList (lit ''nope'') (Some default_domain)], slept = []\<rparr>) \<and>
   OpenStackBackend_add_users_to_resource ref_sdk default_config (lit ''nope'')
     [lit ''alice'', lit ''bob''] (fresh (site [])) =
     (Inl (plain BackendError
        (lit ''Error adding users to project [nope]: Project nope not found in OpenStack! ''
           @ lit ''Projects should be created via _pre_create_resource(), not here. ''
           @ lit ''Skipping user sync.'')),
      \<lparr>service = site [],
        calls = [DomainsList (lit ''Default''),
                 ProjectsList (lit ''nope'') (Some default_domain)], slept = []\<rparr>)"
proof -
  let ?s1 = "\<lparr>service = site [],
        calls = [DomainsList (lit ''Default''),
                 ProjectsList (lit ''nope'') (Some default_domain)], slept = []\<rparr>"
  have b: "length (lit ''nope'') \<le> 255" by (simp add: lit_def)
  have c: "OpenStackClient_get_resource ref_sdk default_config
     (sanitize_for_openstack (lit ''nope'')) (fresh (site [])) = (Inr None, ?s1)"
    by code_simp
  have m: "lit ''Error adding users to project ['' @ sanitize_for_openstack (lit ''nope'')
             @ lit '']: '' @ project_not_found (sanitize_for_openstack (lit ''nope'')) =
           lit ''Error adding users to project [nope]: Project nope not found in OpenStack! ''
           @ lit ''Projects should be created via _pre_create_resource(), not here. ''
           @ lit ''Skipping user sync.''"
    by code_simp
  from add_users_requires_project[OF nope_id b c, of "[lit ''alice'', lit ''bob'']"]
  have "OpenStackBackend_add_users_to_resource ref_sdk default_config (lit ''nope'')
     [lit ''alice'', lit ''bob''] (fresh (site [])) =
     (Inl (plain BackendError
        (lit ''Error adding users to project [nope]: Project nope not found in OpenStack! ''
           @ lit ''Projects should be created via _pre_create_resource(), not here. ''
           @ lit ''Skipping user sync.'')), ?s1)"
    unfolding m by (rule conjunct1)
  with nope_id b c show ?thesis by (intro conjI)
qed

text \<open>
  Claim C4 as stated fails on a backend identifier that is not empty but blank: the guard
  returns the empty set, with no error, although no project of that name exists.
\<close>

theorem add_users_blank_id_counterexample:
  "lit '' '' \<noteq> [] \<and>
   filter (\<lambda>p. proj_name p = sanitize_for_openstack (lit '' '')) (ks_projects (site [])) = [] \<and>
   OpenStackBackend_add_users_to_resource ref_sdk default_config (lit '' '')
     [lit ''alice''] (fresh (site [])) = (Inr {}, fresh (site []))"
proof (intro conjI)
  show "lit '' '' \<noteq> []" by (simp add: lit_def)
  show "filter (\<lambda>p. proj_name p = sanitize_for_openstack (lit '' '')) (ks_projects (site [])) = []"
    by code_simp
  show "OpenStackBackend_add_users_to_resource ref_sdk default_config (lit '' '')
     [lit ''alice''] (fresh (site [])) = (Inr {}, fresh (site []))"
    using space_id by (rule add_users_skipped)
qed

subsection \<open>Removing users when there is nothing to remove\<close>

text \<open>
  Claim C6, as amended. \<open>remove_users_from_resource\<close> returns the empty list, with no
  error, (1) when the backend identifier is blank, and then no call is issued at all;
  (2) when the identifier is not blank, has at most 255 characters and the lookup of its
  sanitized project name finds no project, and then the only calls issued are the two
  listings of the lookup: nothing is revoked.
\<close>

theorem remove_users_nothing_to_remove:
  "(no_backend_id b \<longrightarrow>
      OpenStackBackend_remove_users_from_resource k cfg b us s = (Inr [], s)) \<and>
   (\<not> no_backend_id b \<and> length b \<le> 255 \<and>
    OpenStackClient_get_resource k cfg (sanitize_for_openstack b) s = (Inr None, s1) \<longrightarrow>
      OpenStackBackend_remove_users_from_resource k cfg b us s = (Inr [], s1) \<and>
      (\<exists>dm. calls s1 = calls s @ [DomainsList (domain_name cfg),
                                  ProjectsList (sanitize_for_openstack b) dm]))"
proof (intro conjI impI)
  assume "no_backend_id b"
  then show "OpenStackBackend_remove_users_from_resource k cfg b us s = (Inr [], s)"
    by (simp add: OpenStackBackend_remove_users_from_resource_def)
next
  assume h: "\<not> no_backend_id b \<and> length b \<le> 255 \<and>
    OpenStackClient_get_resource k cfg (sanitize_for_openstack b) s = (Inr None, s1)"
  then have v: "validate_backend_id b (lit ''waldur_managed_project'') = Inr True"
    by (simp add: validate_ok no_backend_id_Nil)
  show "OpenStackBackend_remove_users_from_resource k cfg b us s = (Inr [], s1)"
    using h v
    by (simp add: OpenStackBackend_remove_users_from_resource_def Let_def py_try_def py_bind_def)
  from h get_resource_None_calls[of k cfg "sanitize_for_openstack b" s s1]
  show "\<exists>dm. calls s1 = calls s @ [DomainsList (domain_name cfg),
                                  ProjectsList (sanitize_for_openstack b) dm]"
    by blast
qed

theorem remove_users_nothing_to_remove_witness:
  "no_backend_id [] \<and>
   OpenStackBackend_remove_users_from_resource ref_sdk default_config [] [lit ''alice'']
     (fresh (site [])) = (Inr [], fresh (site [])) \<and>
   \<not> no_backend_id (lit ''nope'') \<and> length (lit ''nope'') \<le> 255 \<and>
   OpenStackClient_get_resource ref_sdk default_config (sanitize_for_openstack (lit ''nope''))
     (fresh (site [])) =
     (Inr None, \<lparr>service = site [],
        calls = [DomainsList (lit ''Default''),
                 ProjectsList (lit ''nope'') (Some default_domain)], slept = []\<rparr>) \<and>
   OpenStackBackend_remove_users_from_resource ref_sdk default_config (lit ''nope'')
     [lit ''alice''] (fresh (site [])) =
     (Inr [], \<lparr>service = site [],
        calls = [DomainsList (lit ''Default''),
                 ProjectsList (lit ''nope'') (Some default_domain)], slept = []\<rparr>)"
proof -
  let ?s1 = "\<lparr>service = site [],
        calls = [DomainsList (lit ''Default''),
                 ProjectsList (lit ''nope'') (Some default_domain)], slept = []\<rparr>"
  have e: "no_backend_id []" by (simp add: no_backend_id_def)
  have b: "length (lit ''nope'') \<le> 255" by (simp add: lit_def)
  have c: "OpenStackClient_get_resource ref_sdk default_config
     (sanitize_for_openstack (lit ''nope'')) (fresh (site [])) = (Inr None, ?s1)"
    by code_simp
  from remove_users_nothing_to_remove[of "[]" ref_sdk default_config "[lit ''alice'']"
      "fresh (site [])"] e
  have r1: "OpenStackBackend_remove_users_from_resource ref_sdk default_config []
     [lit ''alice''] (fresh (site [])) = (Inr [], fresh (site []))"
    by blast
  from remove_users_nothing_to_remove[of "lit ''nope''" ref_sdk default_config
      "[lit ''alice'']" "fresh (site [])" ?s1] nope_id b c
  have r2: "OpenStackBackend_remove_users_from_resource ref_sdk default_config (lit ''nope'')
     [lit ''alice''] (fresh (site [])) = (Inr [], ?s1)"
    by blast
  from e nope_id b c r1 r2 show ?thesis by (intro conjI)
qed

text \<open>
  Claim C6 as stated fails on an identifier of 256 characters whose project does not
  exist: the call raises instead of returning the empty list.
\<close>

theorem remove_users_long_id_counterexample:
  "replicate 256 (97::nat) \<noteq> [] \<and>
   filter (\<lambda>p. proj_name p = sanitize_for_openstack (replicate 256 97))
     (ks_projects (site [])) = [] \<and>
   OpenStackBackend_remove_users_from_resource ref_sdk default_config
     (replicate 256 97) [lit ''alice''] (fresh (site [])) =
     (Inl unbound_project_name, fresh (site []))"
proof (intro conjI)
  show "replicate 256 (97::nat) \<noteq> []" by simp
  show "filter (\<lambda>p. proj_name p = sanitize_for_openstack (replicate 256 97))
     (ks_projects (site [])) = []"
    by code_simp
  have "\<not> no_backend_id (replicate 256 97)" by (rule solid_id) simp
  then show "OpenStackBackend_remove_users_from_resource ref_sdk default_config
     (replicate 256 97) [lit ''alice''] (fresh (site [])) =
     (Inl unbound_project_name, fresh (site []))"
    by (rule remove_users_too_long) simp
qed

subsection \<open>The length limit of backend identifiers\<close>

text \<open>
  Claim C9, as amended. For every backend identifier longer than 255 characters,
  \<open>validate_backend_id\<close> raises a \<open>ValueError\<close>; and when the identifier is not
  blank, \<open>add_users_to_resource\<close>, \<open>remove_users_from_resource\<close> and
  \<open>delete_resource\<close> do not proceed: each ends in an exception and leaves the state as
  it was (no call to the identity service), and the exception of \<open>delete_resource\<close>
  is a \<open>BackendError\<close> wrapping the validation message.
\<close>

theorem backend_id_length_limit:
  assumes "255 < length b"
  shows "validate_backend_id b t =
           Inl (plain ValueError (t @ lit '' backend_id is too long (max 255 characters)'')) \<and>
         (\<not> no_backend_id b \<longrightarrow>
            (\<exists>e. OpenStackBackend_add_users_to_resource k cfg b us s = (Inl e, s)) \<and>
            (\<exists>e. OpenStackBackend_remove_users_from_resource k cfg b us s = (Inl e, s)) \<and>
            (extract_backend_id r = b \<longrightarrow>
               OpenStackBackend_delete_resource k cfg r s =
                 (Inl (plain BackendError
                        (lit ''Error deleting project: '' @ lit ''waldur_managed_project''
                           @ lit '' backend_id is too long (max 255 characters)'')), s)))"
proof (intro conjI impI)
  show "validate_backend_id b t =
           Inl (plain ValueError (t @ lit '' backend_id is too long (max 255 characters)''))"
    using assms by (rule validate_too_long)
next
  assume n: "\<not> no_backend_id b"
  show "\<exists>e. OpenStackBackend_add_users_to_resource k cfg b us s = (Inl e, s)"
    using n assms
    by (simp add: OpenStackBackend_add_users_to_resource_def validate_too_long
        add_users_except_def read_project_name_def py_bind_def)
  show "\<exists>e. OpenStackBackend_remove_users_from_resource k cfg b us s = (Inl e, s)"
    using n assms
    by (simp add: OpenStackBackend_remove_users_from_resource_def validate_too_long
        remove_users_except_def read_project_name_def py_bind_def)
  assume "extract_backend_id r = b"
  then show "OpenStackBackend_delete_resource k cfg r s =
                 (Inl (plain BackendError
                        (lit ''Error deleting project: '' @ lit ''waldur_managed_project''
                           @ lit '' backend_id is too long (max 255 characters)'')), s)"
    using n assms
    by (simp add: OpenStackBackend_delete_resource_def Let_def validate_too_long py_try_def
        plain_def)
qed

theorem backend_id_length_limit_witness:
  "255 < length (replicate 256 (97::nat)) \<and> \<not> no_backend_id (replicate 256 97) \<and>
   extract_backend_id (by_backend_id (replicate 256 97)) = replicate 256 97 \<and>
   validate_backend_id (replicate 256 97) (lit ''waldur_managed_project'') =
     Inl (plain ValueError
       (lit ''waldur_managed_project'' @ lit '' backend_id is too long (max 255 characters)'')) \<and>
   (\<exists>e. OpenStackBackend_add_users_to_resource ref_sdk default_config (replicate 256 97)
               [lit ''alice''] (fresh (site [])) = (Inl e, fresh (site []))) \<and>
   (\<exists>e. OpenStackBackend_remove_users_from_resource ref_sdk default_config
               (replicate 256 97) [lit ''alice''] (fresh (site [])) = (Inl e, fresh (site []))) \<and>
   OpenStackBackend_delete_resource ref_sdk default_config (by_backend_id (replicate 256 97))
     (fresh (site [])) =
     (Inl (plain BackendError
        (lit ''Error deleting project: '' @ lit ''waldur_managed_project''
           @ lit '' backend_id is too long (max 255 characters)'')),
      fresh (site []))"
proof -
  have a: "255 < length (replicate 256 (97::nat))" by simp
  have b: "\<not> no_backend_id (replicate 256 97)" by (rule solid_id) simp
  have c: "extract_backend_id (by_backend_id (replicate 256 97)) = replicate 256 97"
    by (rule extract_by_backend_id)
  from backend_id_length_limit[OF a, of "lit ''waldur_managed_project''" ref_sdk default_config
      "[lit ''alice'']" "fresh (site [])" "by_backend_id (replicate 256 97)"] a b c
  show ?thesis by blast
qed

text \<open>
  Claim C9 as stated fails on an over-long identifier that is blank: 256 spaces are not
  empty and longer than 255, yet the guard that precedes the validation makes the three
  operations return normally.
\<close>

theorem long_blank_id_counterexample:
  "replicate 256 (32::nat) \<noteq> [] \<and> 255 < length (replicate 256 (32::nat)) \<and>
   OpenStackBackend_add_users_to_resource ref_sdk default_config (replicate 256 32)
     [lit ''alice''] (fresh (site [])) = (Inr {}, fresh (site [])) \<and>
   OpenStackBackend_remove_users_from_resource ref_sdk default_config (replicate 256 32)
     [lit ''alice''] (fresh (site [])) = (Inr [], fresh (site [])) \<and>
   OpenStackBackend_delete_resource ref_sdk default_config (by_backend_id (replicate 256 32))
     (fresh (site [])) = (Inr (), fresh (site []))"
proof (intro conjI)
  show "replicate 256 (32::nat) \<noteq> []" by simp
  show "255 < length (replicate 256 (32::nat))" by simp
  show "OpenStackBackend_add_users_to_resource ref_sdk default_config (replicate 256 32)
     [lit ''alice''] (fresh (site [])) = (Inr {}, fresh (site []))"
    using blank_id by (rule add_users_skipped)
  show "OpenStackBackend_remove_users_from_resource ref_sdk default_config (replicate 256 32)
     [lit ''alice''] (fresh (site [])) = (Inr [], fresh (site []))"
    using blank_id by (rule remove_users_skipped)
  show "OpenStackBackend_delete_resource ref_sdk default_config (by_backend_id (replicate 256 32))
     (fresh (site [])) = (Inr (), fresh (site []))"
    by (rule delete_resource_skipped) (simp add: extract_by_backend_id blank_id)
qed

subsection \<open>Removing a user the identity service does not know\<close>






subsection \<open>Adding users one by one\<close>

lemma add_users_loop_step_fail:
  "OpenStackClient_create_association k cfg u n s = (Inl e, t) \<Longrightarrow>
   add_users_loop k cfg n (u # us) acc s = add_users_loop k cfg n us acc t"
  by (simp add: py_bind_def py_try_def)

lemma add_users_loop_step_ok:
  "OpenStackClient_create_association k cfg u n s = (Inr m, t) \<Longrightarrow>
   add_users_loop k cfg n (u # us) acc s = add_users_loop k cfg n us (insert u acc) t"
  by (simp add: py_bind_def py_try_def)

lemma add_users_loop_returns:
  "\<exists>a s'. add_users_loop k cfg n us acc s = (Inr a, s') \<and> acc \<subseteq> a \<and> a \<subseteq> acc \<union> set us"
proof (induction us arbitrary: acc s)
  case Nil
  show ?case by simp
next
  case (Cons u us)
  obtain x t where c: "OpenStackClient_create_association k cfg u n s = (x, t)"
    by (cases "OpenStackClient_create_association k cfg u n s")
  show ?case
  proof (cases x)
    case (Inl e)
    with c add_users_loop_step_fail[of k cfg u n s e t us acc] Cons.IH[of acc t]
    show ?thesis by auto
  next
    case (Inr m)
    with c add_users_loop_step_ok[of k cfg u n s m t us acc] Cons.IH[of "insert u acc" t]
    show ?thesis by auto
  qed
qed

lemma add_users_loop_append:
  "add_users_loop k cfg n pre acc s = (Inr a1, t1) \<Longrightarrow>
   add_users_loop k cfg n (pre @ rest) acc s = add_users_loop k cfg n rest a1 t1"
proof (induction pre arbitrary: acc s)
  case Nil
  then show ?case by simp
next
  case (Cons u pre)
  obtain x t where c: "OpenStackClient_create_association k cfg u n s = (x, t)"
    by (cases "OpenStackClient_create_association k cfg u n s")
  show ?case
  proof (cases x)
    case (Inl e)
    with c have f: "\<And>us a. add_users_loop k cfg n (u # us) a s = add_users_loop k cfg n us a t"
      using add_users_loop_step_fail by blast
    from Cons.prems f[of pre acc] have "add_users_loop k cfg n pre acc t = (Inr a1, t1)" by simp
    from Cons.IH[OF this] f[of "pre @ rest" acc] show ?thesis by simp
  next
    case (Inr m)
    with c have f: "\<And>us a. add_users_loop k cfg n (u # us) a s =
                            add_users_loop k cfg n us (insert u a) t"
      using add_users_loop_step_ok by blast
    from Cons.prems f[of pre acc] have "add_users_loop k cfg n pre (insert u acc) t = (Inr a1, t1)"
      by simp
    from Cons.IH[OF this] f[of "pre @ rest" acc] show ?thesis by simp
  qed
qed

lemma add_users_found:
  assumes "\<not> no_backend_id b" and "length b \<le> 255"
    and "OpenStackClient_get_resource k cfg (sanitize_for_openstack b) s = (Inr (Some r), s1)"
  shows "OpenStackBackend_add_users_to_resource k cfg b us s =
         add_users_loop k cfg (sanitize_for_openstack b) us {} s1"
proof -
  have v: "validate_backend_id b (lit ''waldur_managed_project'') = Inr True"
    using assms(1,2) by (simp add: validate_ok no_backend_id_Nil)
  from add_users_loop_returns[of k cfg "sanitize_for_openstack b" us "{}" s1]
  obtain a s' where "add_users_loop k cfg (sanitize_for_openstack b) us {} s1 = (Inr a, s')"
    by blast
  with assms(1,3) v show ?thesis
    by (simp add: OpenStackBackend_add_users_to_resource_def Let_def py_try_def py_bind_def)
qed

lemma retry_first_attempt_returns:
  assumes "f s = (Inr v, s')"
  shows "retry_on_exception default_retry f s = (Inr v, s')"
  using retry_loop_success[of 1 default_retry f s v s' None] assms
  by (simp add: retry_on_exception_def default_retry_def)

lemma assign_role_grant_fails:
  assumes "KeystoneClient_ensure_role k rn s = (Inr role, t)"
    and "roles_grant k role usr prj (service t) = (Inl e, w)"
    and "\<not> isinstance e Conflict"
  shows "KeystoneClient_assign_role k usr prj rn s =
         (Inr False, t\<lparr>service := w, calls := calls t @ [RolesGrant role usr prj]\<rparr>)"
proof -
  have "assign_role_undecorated k usr prj rn s =
        (Inr False, t\<lparr>service := w, calls := calls t @ [RolesGrant role usr prj]\<rparr>)"
    using assms by (simp add: assign_role_undecorated_def py_try_def py_bind_def sdk_call_def)
  then show ?thesis
    unfolding KeystoneClient_assign_role_def by (rule retry_first_attempt_returns)
qed

lemma create_association_not_assigned:
  assumes "KeystoneClient_get_project k cfg n None s = (Inr (Some p), t1)"
    and "KeystoneClient_ensure_user k cfg u None None None t1 = (Inr usr, t2)"
    and "KeystoneClient_assign_role k usr (Some p) (default_role cfg) t2 = (Inr False, t3)"
  shows "\<exists>e. OpenStackClient_create_association k cfg u n s = (Inl e, t3) \<and>
             cls e = KeystoneClientError"
  using assms
  by (simp add: OpenStackClient_create_association_def py_try_def py_bind_def plain_def)

lemma pair_fst: "fst x = a \<Longrightarrow> x = (a, snd x)"
  by (cases x) simp

lemma pair_isl: "isl (fst x) \<Longrightarrow> x = (Inl (projl (fst x)), snd x)"
  by (cases x) auto

text \<open>
  Claim C5. For a valid backend identifier whose project is found, and any list of
  usernames: \<open>add_users_to_resource\<close> returns normally, with a subset of the usernames;
  when the association of one username fails, the exception is caught, the usernames
  before it keep their outcome, the usernames after it are still processed from the
  state the failed attempt left, and the failed username is not in the result; when it
  succeeds the username is in the result; and a grant that the identity service refuses
  (any exception but \<open>Conflict\<close>) makes the association of that username fail.
\<close>

theorem add_users_isolates_failures:
  assumes "\<not> no_backend_id b" and "length b \<le> 255"
    and "OpenStackClient_get_resource k cfg (sanitize_for_openstack b) s = (Inr (Some r), s1)"
  shows
    "(\<exists>added s'. OpenStackBackend_add_users_to_resource k cfg b us s = (Inr added, s') \<and>
                 added \<subseteq> set us) \<and>
     (\<forall>pre u post a1 t1 e t2.
        us = pre @ u # post \<and> u \<notin> set pre \<and>
        add_users_loop k cfg (sanitize_for_openstack b) pre {} s1 = (Inr a1, t1) \<and>
        OpenStackClient_create_association k cfg u (sanitize_for_openstack b) t1 = (Inl e, t2) \<longrightarrow>
        (\<exists>a3 t3. add_users_loop k cfg (sanitize_for_openstack b) post a1 t2 = (Inr a3, t3) \<and>
                 OpenStackBackend_add_users_to_resource k cfg b us s = (Inr a3, t3) \<and>
                 a1 \<subseteq> a3 \<and> a3 \<subseteq> a1 \<union> set post \<and> (u \<notin> set post \<longrightarrow> u \<notin> a3))) \<and>
     (\<forall>pre u post a1 t1 m t2.
        us = pre @ u # post \<and>
        add_users_loop k cfg (sanitize_for_openstack b) pre {} s1 = (Inr a1, t1) \<and>
        OpenStackClient_create_association k cfg u (sanitize_for_openstack b) t1 = (Inr m, t2) \<longrightarrow>
        (\<exists>a3 t3. add_users_loop k cfg (sanitize_for_openstack b) post (insert u a1) t2 =
                   (Inr a3, t3) \<and>
                 OpenStackBackend_add_users_to_resource k cfg b us s = (Inr a3, t3) \<and>
                 u \<in> a3)) \<and>
     (\<forall>u t0 p t1 usr t2 granted t3 e w.
        KeystoneClient_get_project k cfg (sanitize_for_openstack b) None t0 = (Inr (Some p), t1) \<and>
        KeystoneClient_ensure_user k cfg u None None None t1 = (Inr usr, t2) \<and>
        KeystoneClient_ensure_role k (default_role cfg) t2 = (Inr granted, t3) \<and>
        roles_grant k granted usr (Some p) (service t3) = (Inl e, w) \<and>
        \<not> isinstance e Conflict \<longrightarrow>
        isl (fst (OpenStackClient_create_association k cfg u (sanitize_for_openstack b) t0)))"
proof (intro conjI allI impI)
  let ?n = "sanitize_for_openstack b"
  note top = add_users_found[OF assms, of us]
  from add_users_loop_returns[of k cfg ?n us "{}" s1] top
  show "\<exists>added s'. OpenStackBackend_add_users_to_resource k cfg b us s = (Inr added, s') \<and>
                 added \<subseteq> set us"
    by auto
next
  fix pre u post a1 t1 e t2
  let ?n = "sanitize_for_openstack b"
  assume h: "us = pre @ u # post \<and> u \<notin> set pre \<and>
        add_users_loop k cfg ?n pre {} s1 = (Inr a1, t1) \<and>
        OpenStackClient_create_association k cfg u ?n t1 = (Inl e, t2)"
  then have l: "add_users_loop k cfg ?n pre {} s1 = (Inr a1, t1)"
    and c: "OpenStackClient_create_association k cfg u ?n t1 = (Inl e, t2)" by blast+
  from add_users_loop_returns[of k cfg ?n pre "{}" s1] l have a1: "a1 \<subseteq> set pre" by auto
  have "add_users_loop k cfg ?n (pre @ u # post) {} s1 = add_users_loop k cfg ?n (u # post) a1 t1"
    using l by (rule add_users_loop_append)
  also have "\<dots> = add_users_loop k cfg ?n post a1 t2"
    using c by (rule add_users_loop_step_fail)
  finally have eq: "OpenStackBackend_add_users_to_resource k cfg b us s =
                    add_users_loop k cfg ?n post a1 t2"
    using add_users_found[OF assms, of us] h by simp
  from add_users_loop_returns[of k cfg ?n post a1 t2]
  obtain a3 t3 where r: "add_users_loop k cfg ?n post a1 t2 = (Inr a3, t3)"
    and s1: "a1 \<subseteq> a3" and s2: "a3 \<subseteq> a1 \<union> set post" by blast
  have "u \<notin> set post \<longrightarrow> u \<notin> a3" using s2 a1 h by auto
  with r eq s1 s2
  show "\<exists>a3 t3. add_users_loop k cfg ?n post a1 t2 = (Inr a3, t3) \<and>
                 OpenStackBackend_add_users_to_resource k cfg b us s = (Inr a3, t3) \<and>
                 a1 \<subseteq> a3 \<and> a3 \<subseteq> a1 \<union> set post \<and> (u \<notin> set post \<longrightarrow> u \<notin> a3)"
    by auto
next
  fix pre u post a1 t1 m t2
  let ?n = "sanitize_for_openstack b"
  assume h: "us = pre @ u # post \<and>
        add_users_loop k cfg ?n pre {} s1 = (Inr a1, t1) \<and>
        OpenStackClient_create_association k cfg u ?n t1 = (Inr m, t2)"
  then have l: "add_users_loop k cfg ?n pre {} s1 = (Inr a1, t1)"
    and c: "OpenStackClient_create_association k cfg u ?n t1 = (Inr m, t2)" by blast+
  have "add_users_loop k cfg ?n (pre @ u # post) {} s1 = add_users_loop k cfg ?n (u # post) a1 t1"
    using l by (rule add_users_loop_append)
  also have "\<dots> = add_users_loop k cfg ?n post (insert u a1) t2"
    using c by (rule add_users_loop_step_ok)
  finally have eq: "OpenStackBackend_add_users_to_resource k cfg b us s =
                    add_users_loop k cfg ?n post (insert u a1) t2"
    using add_users_found[OF assms, of us] h by simp
  from add_users_loop_returns[of k cfg ?n post "insert u a1" t2]
  obtain a3 t3 where r: "add_users_loop k cfg ?n post (insert u a1) t2 = (Inr a3, t3)"
    and s1: "insert u a1 \<subseteq> a3" by blast
  with eq
  show "\<exists>a3 t3. add_users_loop k cfg ?n post (insert u a1) t2 = (Inr a3, t3) \<and>
                 OpenStackBackend_add_users_to_resource k cfg b us s = (Inr a3, t3) \<and> u \<in> a3"
    by auto
next
  fix u t0 p t1 usr t2 granted t3 e w
  let ?n = "sanitize_for_openstack b"
  assume h: "KeystoneClient_get_project k cfg ?n None t0 = (Inr (Some p), t1) \<and>
        KeystoneClient_ensure_user k cfg u None None None t1 = (Inr usr, t2) \<and>
        KeystoneClient_ensure_role k (default_role cfg) t2 = (Inr granted, t3) \<and>
        roles_grant k granted usr (Some p) (service t3) = (Inl e, w) \<and>
        \<not> isinstance e Conflict"
  then have "KeystoneClient_assign_role k usr (Some p) (default_role cfg) t2 =
         (Inr False, t3\<lparr>service := w, calls := calls t3 @ [RolesGrant granted usr (Some p)]\<rparr>)"
    using assign_role_grant_fails[of k "default_role cfg" t2 granted t3 usr "Some p" e w] by blast
  with h create_association_not_assigned[of k cfg ?n t0 p t1 u usr t2]
  show "isl (fst (OpenStackClient_create_association k cfg u ?n t0))"
    by fastforce
qed

text \<open>
  Three usernames, the grant for the second one fails (the fifteenth call of the run):
  the other two are returned, two in all, and the call returns normally.
\<close>

theorem add_users_isolates_failures_witness:
  "\<not> no_backend_id (lit ''abc-123'') \<and> length (lit ''abc-123'') \<le> 255 \<and>
   isl (fst (OpenStackClient_create_association ref_sdk default_config (lit ''bob'')
     (sanitize_for_openstack (lit ''abc-123''))
     (snd (add_users_loop ref_sdk default_config (sanitize_for_openstack (lit ''abc-123''))
        [lit ''alice''] {}
        (snd (OpenStackClient_get_resource ref_sdk default_config
           (sanitize_for_openstack (lit ''abc-123''))
           (fresh (site (replicate 14 None @ [Some unavailable]))))))))) \<and>
   fst (OpenStackBackend_add_users_to_resource ref_sdk default_config (lit ''abc-123'')
     [lit ''alice'', lit ''bob'', lit ''carol'']
     (fresh (site (replicate 14 None @ [Some unavailable])))) =
     Inr {lit ''alice'', lit ''carol''} \<and>
   card {lit ''alice'', lit ''carol''} = 2"
proof -
  let ?n = "sanitize_for_openstack (lit ''abc-123'')"
  let ?s0 = "fresh (site (replicate 14 None @ [Some unavailable]))"
  let ?g = "OpenStackClient_get_resource ref_sdk default_config ?n ?s0"
  let ?l = "add_users_loop ref_sdk default_config ?n [lit ''alice''] {} (snd ?g)"
  let ?c = "OpenStackClient_create_association ref_sdk default_config (lit ''bob'') ?n (snd ?l)"
  let ?t = "add_users_loop ref_sdk default_config ?n [lit ''carol''] {lit ''alice''} (snd ?c)"
  let ?us = "[lit ''alice'', lit ''bob'', lit ''carol'']"
  let ?add = "OpenStackBackend_add_users_to_resource ref_sdk default_config (lit ''abc-123'')
      ?us ?s0"
  have a: "\<not> no_backend_id (lit ''abc-123'')"
    by (simp add: no_backend_id_def strip_def is_space_def lit_def)
  have b: "length (lit ''abc-123'') \<le> 255" by (simp add: lit_def)
  have g: "fst ?g = Inr (Some \<lparr>cr_name = lit ''abc-123'', cr_description = lit ''Waldur: Alpha'',
                        cr_organization = lit ''Default''\<rparr>)"
    by code_simp
  have l: "fst ?l = Inr {lit ''alice''}" by code_simp
  have c: "isl (fst ?c)" by code_simp
  have t: "fst ?t = Inr {lit ''alice'', lit ''carol''}" by code_simp
  have k: "card {lit ''alice'', lit ''carol''} = 2" by (simp add: lit_def)
  note g' = pair_fst[OF g]
  note l' = pair_fst[OF l]
  note c' = pair_isl[OF c]
  have d: "?us = [lit ''alice''] @ lit ''bob'' # [lit ''carol'']" by (simp only: append.simps)
  have nb: "lit ''bob'' \<notin> set [lit ''alice'']" by (simp add: lit_def)
  note T = add_users_isolates_failures[OF a b g', of ?us]
  note I = T[THEN conjunct2, THEN conjunct1, rule_format,
      of "[lit ''alice'']" "lit ''bob''" "[lit ''carol'']" "{lit ''alice''}" "snd ?l"
         "projl (fst ?c)" "snd ?c"]
  have ex: "\<exists>a3 t3. ?t = (Inr a3, t3) \<and> ?add = (Inr a3, t3) \<and>
       {lit ''alice''} \<subseteq> a3 \<and> a3 \<subseteq> {lit ''alice''} \<union> set [lit ''carol''] \<and>
       (lit ''bob'' \<notin> set [lit ''carol''] \<longrightarrow> lit ''bob'' \<notin> a3)"
    by (rule I) (rule conjI[OF d conjI[OF nb conjI[OF l' c']]])
  have "?add = ?t"
    using ex by (elim exE conjE) (simp only:)
  with t have e: "fst ?add = Inr {lit ''alice'', lit ''carol''}"
    by (simp only:)
  from a b c e k show ?thesis by (intro conjI)
qed

end
